theory Spec2Isabelle
  imports Complex_Main
begin

section \<open>JavaScript values\<close>

text \<open>
  The program is a single script, \<^verbatim>\<open>App.js\<close>. Its values are JavaScript values: what
  \<^verbatim>\<open>JSON.parse\<close> returns, plus \<^verbatim>\<open>undefined\<close> (the result of reading a property that
  is not there). A number is an IEEE double; it is modelled by its exact value, a real
  number, or one of the three non-finite values. Clock readings (\<^verbatim>\<open>Date.now()\<close>) and
  time-to-live arguments are whole milliseconds and are modelled as \<open>int\<close>; their sum is
  exact in the program as long as it stays below \<open>2^53\<close>.
\<close>

datatype jsnum = NaN | NegInf | Fin real | PosInf

datatype jsval =
    JUndefined
  | JNull
  | JBool bool
  | JNum jsnum
  | JStr string
  | JArr "jsval list"
  | JObj "(string \<times> jsval) list"

datatype js_error = SyntaxError | TypeError | NetworkError

text \<open>
  Built-ins of the JavaScript platform that the script calls and whose full definition
  (the JSON grammar, Unicode case mapping, number formatting) is outside the repository.
  Every function of the model takes them as a parameter, so every theorem holds for
  whatever they compute.
\<close>

record platform =
  JSON_parse :: "string \<Rightarrow> js_error + jsval"
  JSON_stringify :: "jsval \<Rightarrow> string"
  String_toNumber :: "string \<Rightarrow> jsnum"
  Object_toNumber :: "jsval \<Rightarrow> js_error + jsnum"
  Number_toString :: "jsnum \<Rightarrow> string"
  Object_toString :: "jsval \<Rightarrow> js_error + string"
  parseFloat :: "string \<Rightarrow> jsnum"
  date_label :: "jsval \<Rightarrow> js_error + string"
  time_label :: "jsval \<Rightarrow> js_error + string"
  toLowerCase :: "string \<Rightarrow> string"
  trim :: "string \<Rightarrow> string"
  encodeURIComponent :: "string \<Rightarrow> string"

text \<open>Truthiness, as tested by \<^verbatim>\<open>if(x)\<close>, \<^verbatim>\<open>!x\<close>, \<^verbatim>\<open>x && y\<close> and \<^verbatim>\<open>x || y\<close>.\<close>

fun truthy :: "jsval \<Rightarrow> bool" where
  "truthy JUndefined = False"
| "truthy JNull = False"
| "truthy (JBool b) = b"
| "truthy (JNum NaN) = False"
| "truthy (JNum (Fin x)) = (x \<noteq> 0)"
| "truthy (JNum NegInf) = True"
| "truthy (JNum PosInf) = True"
| "truthy (JStr s) = (s \<noteq> [])"
| "truthy (JArr xs) = True"
| "truthy (JObj kvs) = True"

text \<open>
  Property read \<^verbatim>\<open>o.name\<close> for the property names the script uses (none of them is
  defined on a built-in prototype): a \<^verbatim>\<open>TypeError\<close> on \<^verbatim>\<open>null\<close> and \<^verbatim>\<open>undefined\<close>,
  the field of an object, \<^verbatim>\<open>undefined\<close> otherwise. An object lists each of its keys once,
  as the result of \<^verbatim>\<open>JSON.parse\<close> and an object literal do.
\<close>

fun get_prop :: "jsval \<Rightarrow> string \<Rightarrow> js_error + jsval" where
  "get_prop JUndefined k = Inl TypeError"
| "get_prop JNull k = Inl TypeError"
| "get_prop (JObj kvs) k = (case map_of kvs k of None \<Rightarrow> Inr JUndefined | Some v \<Rightarrow> Inr v)"
| "get_prop v k = Inr JUndefined"

text \<open>\<^verbatim>\<open>ToNumber\<close>, the coercion applied by \<^verbatim>\<open>>\<close> to an operand that is compared with a number.\<close>

fun toNumber :: "platform \<Rightarrow> jsval \<Rightarrow> js_error + jsnum" where
  "toNumber P JUndefined = Inr NaN"
| "toNumber P JNull = Inr (Fin 0)"
| "toNumber P (JBool b) = Inr (Fin (if b then 1 else 0))"
| "toNumber P (JNum n) = Inr n"
| "toNumber P (JStr s) = Inr (String_toNumber P s)"
| "toNumber P (JArr xs) = Object_toNumber P (JArr xs)"
| "toNumber P (JObj kvs) = Object_toNumber P (JObj kvs)"

text \<open>\<^verbatim>\<open>a > b\<close> on numbers: false as soon as one side is \<^verbatim>\<open>NaN\<close>.\<close>

fun num_gt :: "jsnum \<Rightarrow> jsnum \<Rightarrow> bool" where
  "num_gt NaN b = False"
| "num_gt a NaN = False"
| "num_gt NegInf b = False"
| "num_gt a PosInf = False"
| "num_gt PosInf b = True"
| "num_gt a NegInf = True"
| "num_gt (Fin x) (Fin y) = (x > y)"

text \<open>\<^verbatim>\<open>v > now()\<close> for an arbitrary value \<open>v\<close> and a clock reading.\<close>

definition js_gt_now :: "platform \<Rightarrow> jsval \<Rightarrow> int \<Rightarrow> js_error + bool" where
  "js_gt_now P v now =
     (case toNumber P v of
        Inl e \<Rightarrow> Inl e
      | Inr n \<Rightarrow> Inr (num_gt n (Fin (of_int now))))"

section \<open>The cache: an in-memory map in front of localStorage\<close>

text \<open>
  \<^verbatim>\<open>const mem = new Map()\<close> and the browser's \<^verbatim>\<open>localStorage\<close>: the first maps keys to
  values, the second maps keys to strings. The state of the whole program extends this
  record further down. A write to \<^verbatim>\<open>localStorage\<close> is taken to succeed: the storage has
  room.
\<close>

record cache =
  mem :: "string \<rightharpoonup> jsval"
  localStorage :: "string \<rightharpoonup> string"

text \<open>
  The body of the \<^verbatim>\<open>try\<close> block of \<^verbatim>\<open>cacheGet\<close>:
  \<^verbatim>\<open>const obj = JSON.parse(raw); if(obj.exp > now()){ mem.set(key, obj.val); return obj.val; }\<close>
  \<open>Inl\<close> is a thrown exception; \<open>Inr (Some v, c)\<close> is \<^verbatim>\<open>return v\<close>; \<open>Inr (None, c)\<close>
  is falling out of the block.
\<close>

definition cacheGet_try ::
  "platform \<Rightarrow> int \<Rightarrow> string \<Rightarrow> string \<Rightarrow> 'a cache_scheme \<Rightarrow> js_error + (jsval option \<times> 'a cache_scheme)" where
  "cacheGet_try P now key raw c =
     (case JSON_parse P raw of
        Inl e \<Rightarrow> Inl e
      | Inr obj \<Rightarrow>
          (case get_prop obj ''exp'' of
             Inl e \<Rightarrow> Inl e
           | Inr ex \<Rightarrow>
               (case js_gt_now P ex now of
                  Inl e \<Rightarrow> Inl e
                | Inr False \<Rightarrow> Inr (None, c)
                | Inr True \<Rightarrow>
                    (case get_prop obj ''val'' of
                       Inl e \<Rightarrow> Inl e
                     | Inr v \<Rightarrow> Inr (Some v, c\<lparr>mem := (mem c)(key \<mapsto> v)\<rparr>)))))"

text \<open>
  \<^verbatim>\<open>
  function cacheGet(key){
    if (mem.has(key)) return mem.get(key);
    const raw = localStorage.getItem(key);
    if(!raw) return null;
    try{ ... }catch{}
    return null;
  }
  \<close>
  The empty \<^verbatim>\<open>catch\<close> continues with \<^verbatim>\<open>return null\<close>; nothing in the \<^verbatim>\<open>try\<close> block
  changes the state before it throws.
\<close>

definition cacheGet ::
  "platform \<Rightarrow> int \<Rightarrow> string \<Rightarrow> 'a cache_scheme \<Rightarrow> js_error + (jsval \<times> 'a cache_scheme)" where
  "cacheGet P now key c =
     (case mem c key of
        Some v \<Rightarrow> Inr (v, c)
      | None \<Rightarrow>
          (case localStorage c key of
             None \<Rightarrow> Inr (JNull, c)
           | Some raw \<Rightarrow>
               if raw = [] then Inr (JNull, c)
               else
                 (case cacheGet_try P now key raw c of
                    Inl e \<Rightarrow> Inr (JNull, c)
                  | Inr (Some v, c') \<Rightarrow> Inr (v, c')
                  | Inr (None, c') \<Rightarrow> Inr (JNull, c'))))"

text \<open>
  \<^verbatim>\<open>function cacheSet(key,val,ttl){ mem.set(key,val);
     localStorage.setItem(key,JSON.stringify({val,exp:now()+ttl})); }\<close>
\<close>

definition envelope :: "jsval \<Rightarrow> int \<Rightarrow> jsval" where
  "envelope val ex = JObj [(''val'', val), (''exp'', JNum (Fin (of_int ex)))]"

definition cacheSet ::
  "platform \<Rightarrow> int \<Rightarrow> string \<Rightarrow> jsval \<Rightarrow> int \<Rightarrow> 'a cache_scheme \<Rightarrow> 'a cache_scheme" where
  "cacheSet P now key val ttl c =
     c\<lparr>mem := (mem c)(key \<mapsto> val),
       localStorage := (localStorage c)(key \<mapsto> JSON_stringify P (envelope val (now + ttl)))\<rparr>"

text \<open>
  \<^verbatim>\<open>ToString\<close>, the conversion applied by a template literal \<^verbatim>\<open>`${v}`\<close> and by an
  assignment to \<^verbatim>\<open>textContent\<close>. It can only fail on an object.
\<close>

fun ToString :: "platform \<Rightarrow> jsval \<Rightarrow> js_error + string" where
  "ToString P JUndefined = Inr ''undefined''"
| "ToString P JNull = Inr ''null''"
| "ToString P (JBool b) = Inr (if b then ''true'' else ''false'')"
| "ToString P (JNum n) = Inr (Number_toString P n)"
| "ToString P (JStr s) = Inr s"
| "ToString P (JArr xs) = Object_toString P (JArr xs)"
| "ToString P (JObj kvs) = Object_toString P (JObj kvs)"

section \<open>Number formatting: \<^verbatim>\<open>toFixed(2)\<close>\<close>

definition digit_char :: "nat \<Rightarrow> char" where
  "digit_char d = char_of (48 + d)"

fun decimal :: "nat \<Rightarrow> string" where
  "decimal n = (if n < 10 then [digit_char n] else decimal (n div 10) @ [digit_char (n mod 10)])"

declare decimal.simps [simp del]

text \<open>
  The digits of \<open>n / 100\<close> with exactly two fractional digits: what ECMAScript's
  \<^verbatim>\<open>Number.prototype.toFixed\<close> builds from the integer \<open>n\<close> for two fraction digits
  (pad to three digits, put the point before the last two).
\<close>

definition fixed2 :: "nat \<Rightarrow> string" where
  "fixed2 n = decimal (n div 100) @ ''.'' @ [digit_char (n div 10 mod 10), digit_char (n mod 10)]"

text \<open>
  The integer \<open>n\<close> for which \<open>n / 100 - x\<close> is closest to zero, the larger one of two
  (\<open>x \<ge> 0\<close>).
\<close>

definition hundredths :: "real \<Rightarrow> nat" where
  "hundredths x = nat \<lfloor>x * 100 + 1 / 2\<rfloor>"

text \<open>
  \<^verbatim>\<open>v.toFixed(2)\<close>. Only a number has the method: on any other value the call is a
  \<^verbatim>\<open>TypeError\<close>. A non-finite number prints as its name; a finite one loses its sign
  first, and from \<open>10^21\<close> on it is printed by the general number printer.
\<close>

fun toFixed2 :: "platform \<Rightarrow> jsval \<Rightarrow> js_error + string" where
  "toFixed2 P (JNum NaN) = Inr ''NaN''"
| "toFixed2 P (JNum PosInf) = Inr ''Infinity''"
| "toFixed2 P (JNum NegInf) = Inr ''-Infinity''"
| "toFixed2 P (JNum (Fin x)) =
     Inr ((if x < 0 then ''-'' else '''') @
          (if \<bar>x\<bar> \<ge> 10 ^ 21 then Number_toString P (Fin \<bar>x\<bar>) else fixed2 (hundredths \<bar>x\<bar>)))"
| "toFixed2 P v = Inl TypeError"

section \<open>The API wrappers\<close>

text \<open>
  An \<^verbatim>\<open>async\<close> function runs up to its first \<^verbatim>\<open>await\<close> of a network request as part of
  the call; what follows the \<^verbatim>\<open>await\<close> runs later, when the request has settled, on the
  state and at the clock reading of that moment. Each such function is therefore two
  functions here: \<open>f_start\<close>, which either finishes without the network or issues a
  request, and \<open>f_resume\<close>, the continuation, which takes the outcome of the request.
\<close>

datatype 'r started = Done 'r | Fetch string

text \<open>
  \<^verbatim>\<open>fetch(url).then(r=>r.json())\<close> settles with the parsed body, or rejects (no network,
  or a body that is not JSON).
\<close>

datatype fetch_outcome = Rejected | Json jsval

text \<open>
  \<^verbatim>\<open>
  async function getJSON(url,key){
    const cached = cacheGet(key);
    if(cached) return {data:cached,cached:true};
    const t0 = performance.now();
    const data = await fetch(url).then(r=>r.json());
    cacheSet(key,data,1000*60*10);
    const t1 = performance.now();
    return {data,cached:false,ms:Math.round(t1-t0)};
  }
  \<close>
  The result is the pair of \<^verbatim>\<open>data\<close> and \<^verbatim>\<open>cached\<close>; the elapsed time \<^verbatim>\<open>ms\<close> is only
  displayed and is left out.
\<close>

definition getJSON_start ::
  "platform \<Rightarrow> int \<Rightarrow> string \<Rightarrow> string \<Rightarrow> 'a cache_scheme
     \<Rightarrow> js_error + ((jsval \<times> bool) started \<times> 'a cache_scheme)" where
  "getJSON_start P now url key c =
     (case cacheGet P now key c of
        Inl e \<Rightarrow> Inl e
      | Inr (cached, c') \<Rightarrow>
          if truthy cached then Inr (Done (cached, True), c') else Inr (Fetch url, c'))"

definition getJSON_resume ::
  "platform \<Rightarrow> int \<Rightarrow> string \<Rightarrow> fetch_outcome \<Rightarrow> 'a cache_scheme
     \<Rightarrow> js_error + ((jsval \<times> bool) \<times> 'a cache_scheme)" where
  "getJSON_resume P now key outcome c =
     (case outcome of
        Rejected \<Rightarrow> Inl NetworkError
      | Json data \<Rightarrow> Inr ((data, False), cacheSet P now key data (1000 * 60 * 10) c))"

text \<open>
  \<^verbatim>\<open>
  async function forecast(lat,lon,units){
    const key = `meteo:${lat.toFixed(2)},${lon.toFixed(2)}:${units}`;
    return getJSON(`https://api.open-meteo.com/v1/forecast?latitude=${lat}&longitude=${lon}
      &current_weather=true&hourly=...&daily=...&forecast_days=7&timezone=auto
      &temperature_unit=${units==='imperial'?'fahrenheit':'celsius'}`, key);
  }
  \<close>
  (the URL is one line in the source).
\<close>

definition forecast_key :: "platform \<Rightarrow> jsval \<Rightarrow> jsval \<Rightarrow> string \<Rightarrow> js_error + string" where
  "forecast_key P lat lon units =
     (case toFixed2 P lat of
        Inl e \<Rightarrow> Inl e
      | Inr a \<Rightarrow>
          (case toFixed2 P lon of
             Inl e \<Rightarrow> Inl e
           | Inr b \<Rightarrow> Inr (''meteo:'' @ a @ '','' @ b @ '':'' @ units)))"

definition temperature_unit :: "string \<Rightarrow> string" where
  "temperature_unit units = (if units = ''imperial'' then ''fahrenheit'' else ''celsius'')"

definition forecast_url :: "platform \<Rightarrow> jsval \<Rightarrow> jsval \<Rightarrow> string \<Rightarrow> js_error + string" where
  "forecast_url P lat lon units =
     (case ToString P lat of
        Inl e \<Rightarrow> Inl e
      | Inr a \<Rightarrow>
          (case ToString P lon of
             Inl e \<Rightarrow> Inl e
           | Inr b \<Rightarrow>
               Inr (''https://api.open-meteo.com/v1/forecast?latitude='' @ a @ ''&longitude='' @ b @
                    ''&current_weather=true&hourly=temperature_2m,precipitation_probability'' @
                    ''&daily=temperature_2m_max,temperature_2m_min,precipitation_probability_mean,weathercode'' @
                    ''&forecast_days=7&timezone=auto&temperature_unit='' @ temperature_unit units)))"

definition forecast_start ::
  "platform \<Rightarrow> int \<Rightarrow> jsval \<Rightarrow> jsval \<Rightarrow> string \<Rightarrow> 'a cache_scheme
     \<Rightarrow> js_error + ((jsval \<times> bool) started \<times> 'a cache_scheme)" where
  "forecast_start P now lat lon units c =
     (case forecast_key P lat lon units of
        Inl e \<Rightarrow> Inl e
      | Inr key \<Rightarrow>
          (case forecast_url P lat lon units of
             Inl e \<Rightarrow> Inl e
           | Inr url \<Rightarrow> getJSON_start P now url key c))"

text \<open>
  The continuation belongs to the closure of the call: it holds the key computed from
  the call's own arguments, whatever the session state has become.
\<close>

definition forecast_resume ::
  "platform \<Rightarrow> int \<Rightarrow> jsval \<Rightarrow> jsval \<Rightarrow> string \<Rightarrow> fetch_outcome \<Rightarrow> 'a cache_scheme
     \<Rightarrow> js_error + ((jsval \<times> bool) \<times> 'a cache_scheme)" where
  "forecast_resume P now lat lon units outcome c =
     (case forecast_key P lat lon units of
        Inl e \<Rightarrow> Inl e
      | Inr key \<Rightarrow> getJSON_resume P now key outcome c)"

text \<open>
  \<^verbatim>\<open>
  async function geocode(q){
    const key = `geo:${q.toLowerCase()}`;
    const cached = cacheGet(key); if(cached) return cached;
    const url = `https://geocoding-api.open-meteo.com/v1/search?name=${encodeURIComponent(q)}
      &count=5&language=en&format=json`;
    const res = await fetch(url).then(r=>r.json());
    const data = res.results || [];
    cacheSet(key,data,1000*60*60*24*30);
    return data;
  }
  \<close>
\<close>

definition geocode_key :: "platform \<Rightarrow> string \<Rightarrow> string" where
  "geocode_key P q = ''geo:'' @ toLowerCase P q"

definition geocode_url :: "platform \<Rightarrow> string \<Rightarrow> string" where
  "geocode_url P q =
     ''https://geocoding-api.open-meteo.com/v1/search?name='' @ encodeURIComponent P q @
     ''&count=5&language=en&format=json''"

definition geocode_start ::
  "platform \<Rightarrow> int \<Rightarrow> string \<Rightarrow> 'a cache_scheme \<Rightarrow> js_error + (jsval started \<times> 'a cache_scheme)" where
  "geocode_start P now q c =
     (case cacheGet P now (geocode_key P q) c of
        Inl e \<Rightarrow> Inl e
      | Inr (cached, c') \<Rightarrow>
          if truthy cached then Inr (Done cached, c') else Inr (Fetch (geocode_url P q), c'))"

definition geocode_resume ::
  "platform \<Rightarrow> int \<Rightarrow> string \<Rightarrow> fetch_outcome \<Rightarrow> 'a cache_scheme \<Rightarrow> js_error + (jsval \<times> 'a cache_scheme)" where
  "geocode_resume P now q outcome c =
     (case outcome of
        Rejected \<Rightarrow> Inl NetworkError
      | Json res \<Rightarrow>
          (case get_prop res ''results'' of
             Inl e \<Rightarrow> Inl e
           | Inr r \<Rightarrow>
               (let data = (if truthy r then r else JArr [])
                in Inr (data, cacheSet P now (geocode_key P q) data (1000 * 60 * 60 * 24 * 30) c))))"

section \<open>The page\<close>

text \<open>
  The document is modelled by the sequence of writes the script makes to it, oldest first.
  The markup and the locale-dependent labels are not modelled: a write records which
  part of the page it fills and from which data.
\<close>

datatype dom_write =
    UnitText string
  | Skeleton
  | PlaceText string
  | Temp jsnum
  | Meta string string string
  | Icon
  | Info string
  | Updated
  | Daily "(string \<times> string \<times> string \<times> string) list"
  | Hourly "(string \<times> string \<times> string) list"
  | Perf bool
  | Suggestions "(string \<times> string \<times> string) list"
  | SuggestDisplay bool
  | QueryValue string

text \<open>
  A write through \<^verbatim>\<open>innerHTML\<close> or \<^verbatim>\<open>textContent\<close> replaces the children of its element,
  which is what a \<^verbatim>\<open>MutationObserver\<close> registered with \<^verbatim>\<open>childList\<close> reports; a change
  of an attribute, a style or a form value is not reported. All elements the script
  writes to exist and lie under \<^verbatim>\<open>document.body\<close>, and a write is taken to change the
  children of its element (it would not if it put nothing where nothing was).
\<close>

fun changes_children :: "dom_write \<Rightarrow> bool" where
  "changes_children Icon = False"
| "changes_children (SuggestDisplay b) = False"
| "changes_children (QueryValue v) = False"
| "changes_children w = True"

text \<open>
  A rendering function is a list of attempted writes, each of which first computes its
  content and may throw doing so. The writes that reach the page are those before the
  first exception.
\<close>

fun run_writes :: "(js_error + dom_write) list \<Rightarrow> dom_write list" where
  "run_writes [] = []"
| "run_writes (Inl e # ws) = []"
| "run_writes (Inr w # ws) = w # run_writes ws"

fun and_then :: "'e + 'a \<Rightarrow> ('a \<Rightarrow> 'e + 'b) \<Rightarrow> 'e + 'b" where
  "and_then (Inl e) f = Inl e"
| "and_then (Inr x) f = f x"

fun map_err :: "('a \<Rightarrow> 'e + 'b) \<Rightarrow> 'a list \<Rightarrow> 'e + 'b list" where
  "map_err f [] = Inr []"
| "map_err f (x # xs) = and_then (f x) (\<lambda>y. and_then (map_err f xs) (\<lambda>ys. Inr (y # ys)))"

text \<open>\<^verbatim>\<open>a[i]\<close>, and the receiver of \<^verbatim>\<open>.map(...)\<close>, which has to be an array.\<close>

fun get_index :: "jsval \<Rightarrow> nat \<Rightarrow> js_error + jsval" where
  "get_index JUndefined i = Inl TypeError"
| "get_index JNull i = Inl TypeError"
| "get_index (JArr xs) i = Inr (if i < length xs then xs ! i else JUndefined)"
| "get_index (JStr s) i = Inr (if i < length s then JStr [s ! i] else JUndefined)"
| "get_index (JObj kvs) i = get_prop (JObj kvs) (decimal i)"
| "get_index v i = Inr JUndefined"

fun as_array :: "jsval \<Rightarrow> js_error + jsval list" where
  "as_array (JArr xs) = Inr xs"
| "as_array v = Inl TypeError"

fun Math_round :: "jsnum \<Rightarrow> jsnum" where
  "Math_round (Fin x) = Fin (of_int \<lfloor>x + 1 / 2\<rfloor>)"
| "Math_round n = n"

definition degree_sign :: string where
  "degree_sign = [char_of (176 :: nat)]"

definition unit_label :: "string \<Rightarrow> string" where
  "unit_label units = degree_sign @ (if units = ''imperial'' then ''F'' else ''C'')"

text \<open>
  \<^verbatim>\<open>
  function renderCurrent(place,d){
    $("#place").textContent=place;
    const t=Math.round(d.current_weather.temperature);
    $("#temp").innerHTML=`${t}\<degree>`;
    $("#meta").textContent=`windspeed ${d.current_weather.windspeed}
       ${state.units==='metric'?'m/s':'mph'} \<cdot> code ${d.current_weather.weathercode}`;
    $("#icon").src=...; $("#icon").alt="Weather";
    $("#info").textContent=`time ${d.current_weather.time}`;
    $("#updated").textContent=`Updated just now`;
  }
  \<close>
\<close>

definition current_weather :: "jsval \<Rightarrow> string \<Rightarrow> js_error + jsval" where
  "current_weather d k = and_then (get_prop d ''current_weather'') (\<lambda>cw. get_prop cw k)"

definition renderCurrent :: "platform \<Rightarrow> jsval \<Rightarrow> jsval \<Rightarrow> string \<Rightarrow> (js_error + dom_write) list" where
  "renderCurrent P pl d un =
     [and_then (ToString P pl) (\<lambda>p. Inr (PlaceText p)),
      and_then (current_weather d ''temperature'') (\<lambda>tv.
        and_then (toNumber P tv) (\<lambda>n. Inr (Temp (Math_round n)))),
      and_then (current_weather d ''windspeed'') (\<lambda>w.
        and_then (ToString P w) (\<lambda>ws.
          and_then (current_weather d ''weathercode'') (\<lambda>c.
            and_then (ToString P c) (\<lambda>cs.
              Inr (Meta ws (if un = ''metric'' then ''m/s'' else ''mph'') cs))))),
      Inr Icon,
      and_then (current_weather d ''time'') (\<lambda>t.
        and_then (ToString P t) (\<lambda>ts. Inr (Info ts))),
      Inr Updated]"

text \<open>
  \<^verbatim>\<open>
  function renderDaily(d){
    const days=d.daily.time.map((dt,i)=> miniCard(
      formatDate(new Date(dt).getTime()/1000),
      d.daily.temperature_2m_max[i], d.daily.temperature_2m_min[i],
      d.daily.precipitation_probability_mean[i]));
    $("#daily").innerHTML=days.join("");
  }
  \<close>
  The platform's \<open>date_label\<close> stands for \<^verbatim>\<open>formatDate(new Date(dt).getTime()/1000)\<close> and
  \<open>time_label\<close> for \<^verbatim>\<open>new Date(dt).toLocaleTimeString(...)\<close>.
\<close>

definition series :: "jsval \<Rightarrow> string \<Rightarrow> string \<Rightarrow> nat \<Rightarrow> js_error + jsval" where
  "series d grp k i =
     and_then (get_prop d grp) (\<lambda>g. and_then (get_prop g k) (\<lambda>a. get_index a i))"

definition daily_card :: "platform \<Rightarrow> jsval \<Rightarrow> nat \<times> jsval \<Rightarrow> js_error + (string \<times> string \<times> string \<times> string)" where
  "daily_card P d = (\<lambda>(i, dt).
     and_then (date_label P dt) (\<lambda>label.
       and_then (series d ''daily'' ''temperature_2m_max'' i) (\<lambda>hi.
         and_then (series d ''daily'' ''temperature_2m_min'' i) (\<lambda>lo.
           and_then (series d ''daily'' ''precipitation_probability_mean'' i) (\<lambda>pop.
             and_then (ToString P hi) (\<lambda>his.
               and_then (ToString P lo) (\<lambda>los.
                 and_then (ToString P pop) (\<lambda>pops. Inr (label, his, los, pops)))))))))"

definition renderDaily :: "platform \<Rightarrow> jsval \<Rightarrow> (js_error + dom_write) list" where
  "renderDaily P d =
     [and_then (get_prop d ''daily'') (\<lambda>g.
        and_then (get_prop g ''time'') (\<lambda>t.
          and_then (as_array t) (\<lambda>ts.
            and_then (map_err (daily_card P d) (zip [0..<length ts] ts)) (\<lambda>cards.
              Inr (Daily cards)))))]"

text \<open>
  \<^verbatim>\<open>
  function renderHourly(d){
    const hours=d.hourly.time.slice(0,24).map((dt,i)=>{
      const t=new Date(dt).toLocaleTimeString([], {hour:'2-digit',minute:'2-digit'});
      return `...${t}...${d.hourly.temperature_2m[i]}\<degree> \<cdot> ${d.hourly.precipitation_probability[i]}% rain...`;
    });
    $("#hourly").innerHTML=hours.join("");
  }
  \<close>
\<close>

definition hourly_card :: "platform \<Rightarrow> jsval \<Rightarrow> nat \<times> jsval \<Rightarrow> js_error + (string \<times> string \<times> string)" where
  "hourly_card P d = (\<lambda>(i, dt).
     and_then (time_label P dt) (\<lambda>label.
       and_then (series d ''hourly'' ''temperature_2m'' i) (\<lambda>t.
         and_then (ToString P t) (\<lambda>ts.
           and_then (series d ''hourly'' ''precipitation_probability'' i) (\<lambda>pop.
             and_then (ToString P pop) (\<lambda>pops. Inr (label, ts, pops)))))))"

definition renderHourly :: "platform \<Rightarrow> jsval \<Rightarrow> (js_error + dom_write) list" where
  "renderHourly P d =
     [and_then (get_prop d ''hourly'') (\<lambda>g.
        and_then (get_prop g ''time'') (\<lambda>t.
          and_then (as_array t) (\<lambda>ts.
            and_then (map_err (hourly_card P d) (zip [0..<length (take 24 ts)] (take 24 ts))) (\<lambda>cards.
              Inr (Hourly cards)))))]"

section \<open>The controller\<close>

text \<open>
  The whole program state: the two stores of the cache, the session object
  \<^verbatim>\<open>state = {units, lat, lon, place}\<close> (a field that was never assigned reads as
  \<^verbatim>\<open>undefined\<close>), the page, the network requests in flight with what their continuations
  captured, and whether \<^verbatim>\<open>obs.observe(document.body, ...)\<close> has run.
\<close>

datatype pending_fetch = PForecast jsval jsval string | PGeocode string

record app = cache +
  units :: string
  lat :: jsval
  lon :: jsval
  place :: jsval
  page :: "dom_write list"
  pending :: "pending_fetch list"
  observing :: bool

text \<open>
  \<^verbatim>\<open>
  async function loadWeather(lat,lon){
    state.lat=lat; state.lon=lon; showSkeleton();
    const {data,cached,ms}=await forecast(lat,lon,state.units);
    renderCurrent(state.place||`${lat.toFixed(2)}, ${lon.toFixed(2)}`,data);
    renderDaily(data); renderHourly(data);
    $("#perf").textContent=cached?'cached \<cdot> instant':`network ${ms}ms`;
  }
  \<close>
  \<open>loadWeather_start\<close> is the part before the \<^verbatim>\<open>await\<close>. It returns the forecast when the
  cache had it, and nothing when a request went out or when \<^verbatim>\<open>forecast\<close> threw (the promise
  of \<^verbatim>\<open>loadWeather\<close> is then rejected and nobody handles it). \<open>loadWeather_render\<close> is the
  part after the \<^verbatim>\<open>await\<close>; it reads \<^verbatim>\<open>state.place\<close> and \<^verbatim>\<open>state.units\<close> as they are then.
\<close>

definition loadWeather_start ::
  "platform \<Rightarrow> int \<Rightarrow> jsval \<Rightarrow> jsval \<Rightarrow> app \<Rightarrow> (jsval \<times> bool) option \<times> app" where
  "loadWeather_start P now la lo s =
     (let s1 = s\<lparr>lat := la, lon := lo, page := page s @ [Skeleton]\<rparr>
      in case forecast_start P now la lo (units s1) s1 of
           Inl e \<Rightarrow> (None, s1)
         | Inr (Done r, s2) \<Rightarrow> (Some r, s2)
         | Inr (Fetch url, s2) \<Rightarrow> (None, s2\<lparr>pending := pending s2 @ [PForecast la lo (units s1)]\<rparr>))"

definition place_or_coordinates :: "platform \<Rightarrow> jsval \<Rightarrow> jsval \<Rightarrow> app \<Rightarrow> js_error + jsval" where
  "place_or_coordinates P la lo s =
     (if truthy (place s) then Inr (place s)
      else and_then (toFixed2 P la) (\<lambda>a. and_then (toFixed2 P lo) (\<lambda>b. Inr (JStr (a @ '', '' @ b)))))"

definition forecast_writes :: "platform \<Rightarrow> jsval \<Rightarrow> jsval \<Rightarrow> string \<Rightarrow> bool \<Rightarrow> dom_write list" where
  "forecast_writes P pl data un cached =
     run_writes (renderCurrent P pl data un @ renderDaily P data @ renderHourly P data @
                 [Inr (Perf cached)])"

definition loadWeather_render :: "platform \<Rightarrow> jsval \<Rightarrow> jsval \<Rightarrow> jsval \<times> bool \<Rightarrow> app \<Rightarrow> app" where
  "loadWeather_render P la lo r s =
     s\<lparr>page := page s @
         (case place_or_coordinates P la lo s of
            Inl e \<Rightarrow> []
          | Inr pl \<Rightarrow> forecast_writes P pl (fst r) (units s) (snd r))\<rparr>"

definition loadWeather :: "platform \<Rightarrow> int \<Rightarrow> jsval \<Rightarrow> jsval \<Rightarrow> app \<Rightarrow> app" where
  "loadWeather P now la lo s =
     (case loadWeather_start P now la lo s of
        (None, s') \<Rightarrow> s'
      | (Some r, s') \<Rightarrow> loadWeather_render P la lo r s')"

text \<open>
  \<^verbatim>\<open>
  function setUnits(units){ state.units=units; localStorage.setItem('units',units);
    unitText.textContent=units==='imperial'?'\<degree>F':'\<degree>C';
    if(state.lat&&state.lon) loadWeather(state.lat,state.lon); }
  unitToggle.addEventListener('change',()=> setUnits(unitToggle.checked?'imperial':'metric'));
  \<close>
\<close>

definition setUnits :: "platform \<Rightarrow> int \<Rightarrow> string \<Rightarrow> app \<Rightarrow> app" where
  "setUnits P now u s =
     (let s1 = s\<lparr>localStorage := (localStorage s)(''units'' \<mapsto> u), units := u,
                 page := page s @ [UnitText (unit_label u)]\<rparr>
      in if truthy (lat s1) \<and> truthy (lon s1) then loadWeather P now (lat s1) (lon s1) s1 else s1)"

text \<open>
  The function wrapped by \<^verbatim>\<open>debounce\<close>:
  \<^verbatim>\<open>
  async text=>{
    if(!text.trim()){ suggest.style.display='none'; return; }
    try{
      const results=await geocode(text);
      if(!Array.isArray(results)||results.length===0){ suggest.style.display='none'; return; }
      suggest.innerHTML=results.map(r=>{
        const name=`${r.name}${r.admin1?", "+r.admin1:""}, ${r.country}`;
        return `<button type="button" data-lat="${r.latitude}" data-lon="${r.longitude}"
                  data-name="${name}">${name}</button>`;
      }).join("");
      suggest.style.display='block';
    }catch{}
  }
  \<close>
\<close>

definition suggestion :: "platform \<Rightarrow> jsval \<Rightarrow> js_error + (string \<times> string \<times> string)" where
  "suggestion P r =
     and_then (get_prop r ''name'') (\<lambda>n. and_then (ToString P n) (\<lambda>ns.
       and_then (get_prop r ''admin1'') (\<lambda>a.
         and_then (if truthy a then and_then (ToString P a) (\<lambda>as. Inr ('', '' @ as)) else Inr '''') (\<lambda>region.
           and_then (get_prop r ''country'') (\<lambda>c. and_then (ToString P c) (\<lambda>cs.
             and_then (get_prop r ''latitude'') (\<lambda>la. and_then (ToString P la) (\<lambda>las.
               and_then (get_prop r ''longitude'') (\<lambda>lo. and_then (ToString P lo) (\<lambda>los.
                 Inr (las, los, ns @ region @ '', '' @ cs)))))))))))"

definition search_show :: "platform \<Rightarrow> jsval \<Rightarrow> app \<Rightarrow> app" where
  "search_show P results s =
     (case results of
        JArr (r # rs) \<Rightarrow>
          (case map_err (suggestion P) (r # rs) of
             Inl e \<Rightarrow> s
           | Inr bs \<Rightarrow> s\<lparr>page := page s @ [Suggestions bs, SuggestDisplay True]\<rparr>)
      | _ \<Rightarrow> s\<lparr>page := page s @ [SuggestDisplay False]\<rparr>)"

definition search_start :: "platform \<Rightarrow> int \<Rightarrow> string \<Rightarrow> app \<Rightarrow> app" where
  "search_start P now text s =
     (if trim P text = [] then s\<lparr>page := page s @ [SuggestDisplay False]\<rparr>
      else case geocode_start P now text s of
             Inl e \<Rightarrow> s
           | Inr (Done results, s') \<Rightarrow> search_show P results s'
           | Inr (Fetch url, s') \<Rightarrow> s'\<lparr>pending := pending s' @ [PGeocode text]\<rparr>)"

text \<open>
  A click on a suggestion (\<^verbatim>\<open>b.dataset\<close> holds the three strings of the button):
  \<^verbatim>\<open>
  const lat=parseFloat(b.dataset.lat), lon=parseFloat(b.dataset.lon); const name=b.dataset.name;
  state.place=name; suggest.style.display='none'; q.value=name;
  loadWeather(lat,lon);
  \<close>
  and the success callback of \<^verbatim>\<open>navigator.geolocation.getCurrentPosition\<close>:
  \<^verbatim>\<open>
  const {latitude:lat,longitude:lon}=pos.coords; state.place='Your location';
  loadWeather(lat,lon);
  \<close>
\<close>

definition suggest_click :: "platform \<Rightarrow> int \<Rightarrow> string \<Rightarrow> string \<Rightarrow> string \<Rightarrow> app \<Rightarrow> app" where
  "suggest_click P now las los name s =
     loadWeather P now (JNum (parseFloat P las)) (JNum (parseFloat P los))
       (s\<lparr>place := JStr name, page := page s @ [SuggestDisplay False, QueryValue name]\<rparr>)"

definition position_found :: "platform \<Rightarrow> int \<Rightarrow> jsnum \<Rightarrow> jsnum \<Rightarrow> app \<Rightarrow> app" where
  "position_found P now la lo s =
     loadWeather P now (JNum la) (JNum lo) (s\<lparr>place := JStr ''Your location''\<rparr>)"

text \<open>
  A request in flight settles: the continuation of \<^verbatim>\<open>getJSON\<close> and \<^verbatim>\<open>loadWeather\<close>,
  or that of \<^verbatim>\<open>geocode\<close> and the search function (whose \<^verbatim>\<open>catch{}\<close> swallows a failure).
\<close>

definition resume :: "platform \<Rightarrow> int \<Rightarrow> pending_fetch \<Rightarrow> fetch_outcome \<Rightarrow> app \<Rightarrow> app" where
  "resume P now p outcome s =
     (case p of
        PForecast la lo u \<Rightarrow>
          (case forecast_resume P now la lo u outcome s of
             Inl e \<Rightarrow> s
           | Inr (r, s') \<Rightarrow> loadWeather_render P la lo r s')
      | PGeocode q \<Rightarrow>
          (case geocode_resume P now q outcome s of
             Inl e \<Rightarrow> s
           | Inr (results, s') \<Rightarrow> search_show P results s'))"

text \<open>
  \<^verbatim>\<open>
  const obs=new MutationObserver(()=>{ if(state.lat&&state.lon){
    localStorage.setItem('lastCoords',JSON.stringify({lat:state.lat,lon:state.lon,place:state.place})); } });
  obs.observe(document.body,{subtree:true,childList:true});
  \<close>
  The callback runs at the end of a task in which, after \<^verbatim>\<open>observe\<close>, some element under
  the body got new children. \<open>deliver P n s\<close> ends a task that started with \<open>n\<close> writes
  on the page.
\<close>

definition lastCoords_record :: "app \<Rightarrow> jsval" where
  "lastCoords_record s = JObj [(''lat'', lat s), (''lon'', lon s), (''place'', place s)]"

definition observer_callback :: "platform \<Rightarrow> app \<Rightarrow> app" where
  "observer_callback P s =
     (if truthy (lat s) \<and> truthy (lon s)
      then s\<lparr>localStorage := (localStorage s)(''lastCoords'' \<mapsto> JSON_stringify P (lastCoords_record s))\<rparr>
      else s)"

definition deliver :: "platform \<Rightarrow> nat \<Rightarrow> app \<Rightarrow> app" where
  "deliver P n s =
     (if observing s \<and> list_ex changes_children (drop n (page s)) then observer_callback P s else s)"

text \<open>
  Loading the page runs the script once, on an empty \<^verbatim>\<open>mem\<close> and whatever
  \<^verbatim>\<open>localStorage\<close> holds:
  \<^verbatim>\<open>
  const state={units:localStorage.getItem('units')||'metric'};
  unitToggle.checked= state.units==='imperial'; unitText.textContent= ...;
  ...
  (function init(){
    const last=JSON.parse(localStorage.getItem('lastCoords')||'null');
    if(last){ state.place=last.place; loadWeather(last.lat,last.lon); }
    else { state.place='Mumbai, IN'; loadWeather(19.076,72.8777); }
  })();
  const obs=new MutationObserver(...); obs.observe(...);
  \<close>
  \<^verbatim>\<open>JSON.parse('null')\<close> is \<^verbatim>\<open>null\<close>. An exception of \<^verbatim>\<open>JSON.parse\<close> ends the script before
  the observer is created. The part of \<^verbatim>\<open>loadWeather\<close> after its \<^verbatim>\<open>await\<close> runs when
  the script has reached its end, so after \<^verbatim>\<open>observe\<close>.
\<close>

definition or_default :: "string option \<Rightarrow> string \<Rightarrow> string" where
  "or_default item d = (case item of None \<Rightarrow> d | Some v \<Rightarrow> if v = [] then d else v)"

definition initial :: "(string \<rightharpoonup> string) \<Rightarrow> app" where
  "initial ls =
     \<lparr>mem = Map.empty, localStorage = ls,
      units = or_default (ls ''units'') ''metric'',
      lat = JUndefined, lon = JUndefined, place = JUndefined,
      page = [UnitText (unit_label (or_default (ls ''units'') ''metric''))],
      pending = [], observing = False\<rparr>"

definition init_target :: "platform \<Rightarrow> (string \<rightharpoonup> string) \<Rightarrow> js_error + (jsval \<times> jsval \<times> jsval)" where
  "init_target P ls =
     and_then (case ls ''lastCoords'' of
                 None \<Rightarrow> Inr JNull
               | Some raw \<Rightarrow> if raw = [] then Inr JNull else JSON_parse P raw) (\<lambda>last.
       if truthy last
       then and_then (get_prop last ''place'') (\<lambda>pl.
              and_then (get_prop last ''lat'') (\<lambda>la.
                and_then (get_prop last ''lon'') (\<lambda>lo. Inr (pl, la, lo))))
       else Inr (JStr ''Mumbai, IN'', JNum (Fin 19.076), JNum (Fin 72.8777)))"

definition startup :: "platform \<Rightarrow> int \<Rightarrow> (string \<rightharpoonup> string) \<Rightarrow> app" where
  "startup P now ls =
     (case init_target P ls of
        Inl e \<Rightarrow> initial ls
      | Inr (pl, la, lo) \<Rightarrow>
          (case loadWeather_start P now la lo ((initial ls)\<lparr>place := pl\<rparr>) of
             (k, s1) \<Rightarrow>
               (let s2 = s1\<lparr>observing := True\<rparr>
                in deliver P (length (page s2))
                     (case k of None \<Rightarrow> s2 | Some r \<Rightarrow> loadWeather_render P la lo r s2))))"

text \<open>
  After the script, the program runs one task per event: a change of the unit toggle, a
  click on a suggestion, a position from the geolocation service, the debounced search
  function called with the text of the search box, and a network request that settles
  (the \<open>i\<close>-th of those in flight). Each task ends with the observer.
\<close>

datatype event =
    UnitToggle bool
  | SuggestClick string string string
  | Position jsnum jsnum
  | Search string
  | Response nat fetch_outcome

definition handle :: "platform \<Rightarrow> int \<Rightarrow> event \<Rightarrow> app \<Rightarrow> app" where
  "handle P now e s =
     (case e of
        UnitToggle checked \<Rightarrow> setUnits P now (if checked then ''imperial'' else ''metric'') s
      | SuggestClick las los name \<Rightarrow> suggest_click P now las los name s
      | Position la lo \<Rightarrow> position_found P now la lo s
      | Search text \<Rightarrow> search_start P now text s
      | Response i outcome \<Rightarrow>
          if i < length (pending s)
          then resume P now (pending s ! i) outcome
                 (s\<lparr>pending := take i (pending s) @ drop (Suc i) (pending s)\<rparr>)
          else s)"

definition step :: "platform \<Rightarrow> int \<Rightarrow> event \<Rightarrow> app \<Rightarrow> app" where
  "step P now e s = deliver P (length (page s)) (handle P now e s)"

inductive reachable :: "platform \<Rightarrow> app \<Rightarrow> bool" for P :: platform where
  reachable_startup: "reachable P (startup P now ls)"
| reachable_step: "reachable P s \<Longrightarrow> reachable P (step P now e s)"

text \<open>A session: the tasks of a list of timed events, one after the other.\<close>

fun run :: "platform \<Rightarrow> (int \<times> event) list \<Rightarrow> app \<Rightarrow> app" where
  "run P [] s = s"
| "run P ((now, e) # es) s = run P es (step P now e s)"

section \<open>The debounced search\<close>

text \<open>
  \<^verbatim>\<open>
  function debounce(fn,wait){ let t; return(...a)=>{ clearTimeout(t); t=setTimeout(()=>fn(...a),wait); }; }
  const search=debounce(async text=>{...},300);
  q.addEventListener('input',e=> search(e.target.value));
  \<close>
  The variable \<^verbatim>\<open>t\<close> of the closure is the timer: nothing, or the time at which the
  timeout is due together with the arguments its callback will pass on. A call of the
  debounced function at time \<open>now\<close> cancels the timer and sets a new one.
\<close>

type_synonym timer = "(int \<times> string) option"

definition debounced_call :: "int \<Rightarrow> int \<Rightarrow> string \<Rightarrow> timer \<Rightarrow> timer" where
  "debounced_call wait now a t = Some (now + wait, a)"

text \<open>
  The clock of the event loop: input events at given times, oldest first. A timeout that
  is due when an input event arrives has run first, at the time it was due; after the
  last input the clock runs on and the remaining timeout runs. The result lists the calls
  of the wrapped function: when, and with which argument.
\<close>

fun debounce_run :: "int \<Rightarrow> timer \<Rightarrow> (int \<times> string) list \<Rightarrow> (int \<times> string) list" where
  "debounce_run wait None [] = []"
| "debounce_run wait (Some (due, a)) [] = [(due, a)]"
| "debounce_run wait None ((now, v) # inputs) =
     debounce_run wait (debounced_call wait now v None) inputs"
| "debounce_run wait (Some (due, a)) ((now, v) # inputs) =
     (if due \<le> now then (due, a) # debounce_run wait (debounced_call wait now v None) inputs
      else debounce_run wait (debounced_call wait now v (Some (due, a))) inputs)"

text \<open>
  The wrapped function calls \<^verbatim>\<open>geocode(text)\<close> unless \<^verbatim>\<open>text.trim()\<close> is empty; the
  search box is wired with a wait of 300 ms.
\<close>

definition geocode_calls :: "platform \<Rightarrow> (int \<times> string) list \<Rightarrow> (int \<times> string) list" where
  "geocode_calls P inputs = filter (\<lambda>(due, text). trim P text \<noteq> []) (debounce_run 300 None inputs)"

section \<open>Vocabulary of the properties\<close>

text \<open>
  A lookup that finds nothing returns \<^verbatim>\<open>null\<close>; reading the \<^verbatim>\<open>val\<close> of a stored object
  that has none gives \<^verbatim>\<open>undefined\<close>. Both are JavaScript's "no value", and every caller
  of \<^verbatim>\<open>cacheGet\<close> tests the result with \<^verbatim>\<open>if(cached)\<close>, which treats them alike.
\<close>

definition absent :: "jsval \<Rightarrow> bool" where
  "absent v = (v = JNull \<or> v = JUndefined)"

text \<open>
  What \<^verbatim>\<open>cacheSet\<close> stores is the JSON text of an object with a \<^verbatim>\<open>val\<close> and an \<^verbatim>\<open>exp\<close>.
  A stored string is malformed when it is not JSON or not such an object, and expired at
  a clock reading when it is an object whose \<^verbatim>\<open>exp\<close> is a number that is not greater.
\<close>

definition is_envelope :: "jsval \<Rightarrow> bool" where
  "is_envelope obj =
     (case obj of JObj kvs \<Rightarrow> map_of kvs ''val'' \<noteq> None \<and> map_of kvs ''exp'' \<noteq> None | _ \<Rightarrow> False)"

definition malformed :: "platform \<Rightarrow> string \<Rightarrow> bool" where
  "malformed P raw = (case JSON_parse P raw of Inl e \<Rightarrow> True | Inr obj \<Rightarrow> \<not> is_envelope obj)"

definition expired :: "platform \<Rightarrow> int \<Rightarrow> string \<Rightarrow> bool" where
  "expired P now raw =
     (case JSON_parse P raw of
        Inr (JObj kvs) \<Rightarrow>
          (case map_of kvs ''exp'' of Some (JNum n) \<Rightarrow> \<not> num_gt n (Fin (of_int now)) | _ \<Rightarrow> False)
      | _ \<Rightarrow> False)"






text \<open>
  Two program states are the same session when they differ at most in the cache: the
  in-memory map and the entries of \<^verbatim>\<open>localStorage\<close> other than \<^verbatim>\<open>lastCoords\<close>.
\<close>

definition same_session :: "app \<Rightarrow> app \<Rightarrow> bool" where
  "same_session s s' =
     (units s' = units s \<and> lat s' = lat s \<and> lon s' = lon s \<and> place s' = place s \<and>
      page s' = page s \<and> pending s' = pending s \<and> observing s' = observing s \<and>
      localStorage s' ''lastCoords'' = localStorage s ''lastCoords'')"

text \<open>
  The script makes its first two writes, the unit label and the skeleton of the first
  load, before it calls \<^verbatim>\<open>observe\<close>. The observer of a session has seen a change when
  a later write gave some element new children.
\<close>

definition seen_change :: "app \<Rightarrow> bool" where
  "seen_change s = list_ex changes_children (drop 2 (page s))"

section \<open>A platform for the examples\<close>

text \<open>
  The examples below run the model on concrete inputs and need concrete built-ins. This
  platform agrees with a browser on what the examples use: the JSON texts named here and
  their values, and lower-casing and trimming of ASCII text. Elsewhere it is arbitrary.
\<close>

definition home_record :: jsval where
  "home_record = JObj [(''lat'', JNum (Fin 12.97)), (''lon'', JNum (Fin 77.59)),
                       (''place'', JStr ''Your location'')]"

definition home_json :: string where
  \<open>home_json = ''{"lat":12.97,"lon":77.59,"place":"Your location"}''\<close>

definition entry_json :: string where
  \<open>entry_json = ''{"val":[],"exp":5000}''\<close>

definition valueless_json :: string where
  \<open>valueless_json = ''{"exp":5000}''\<close>

definition forecast_json :: string where
  \<open>forecast_json = ''{"val":{},"exp":600250}''\<close>

definition ascii_lower :: "char \<Rightarrow> char" where
  "ascii_lower c =
     (let n = of_char c :: nat in if 65 \<le> n \<and> n \<le> 90 then char_of (n + 32) else c)"

definition ascii_space :: "char \<Rightarrow> bool" where
  "ascii_space c = (of_char c \<in> {9, 10, 11, 12, 13, 32 :: nat})"

definition ascii_trim :: "string \<Rightarrow> string" where
  "ascii_trim s = rev (dropWhile ascii_space (rev (dropWhile ascii_space s)))"

definition example_platform :: platform where
  "example_platform =
     \<lparr>JSON_parse = (\<lambda>s. if s = ''null'' then Inr JNull
                         else if s = entry_json then Inr (envelope (JArr []) 5000)
                         else if s = valueless_json then Inr (JObj [(''exp'', JNum (Fin 5000))])
                         else if s = home_json then Inr home_record
                         else if s = forecast_json then Inr (envelope (JObj []) 600250)
                         else Inl SyntaxError),
      JSON_stringify = (\<lambda>v. if v = envelope (JArr []) 5000 then entry_json
                             else if v = home_record then home_json
                             else if v = envelope (JObj []) 600250 then forecast_json
                             else ''null''),
      String_toNumber = (\<lambda>s. NaN),
      Object_toNumber = (\<lambda>v. Inr NaN),
      Number_toString = (\<lambda>n. ''0''),
      Object_toString = (\<lambda>v. Inr ''[object Object]''),
      parseFloat = (\<lambda>s. if s = ''51.51'' then Fin 51.51 else if s = ''-0.13'' then Fin (- 0.13) else NaN),
      date_label = (\<lambda>v. Inr ''Invalid Date''),
      time_label = (\<lambda>v. Inr ''Invalid Date''),
      toLowerCase = map ascii_lower,
      trim = ascii_trim,
      encodeURIComponent = (\<lambda>s. s)\<rparr>"

text \<open>
  A first visit with empty storage and no network: the page loads at 0, the geolocation
  service reports a position at 2000, and the two forecast requests fail at 3000 and 4000.
\<close>

definition mumbai_loading :: app where
  "mumbai_loading =
     \<lparr>mem = Map.empty, localStorage = Map.empty, units = ''metric'',
      lat = JNum (Fin 19.076), lon = JNum (Fin 72.8777), place = JStr ''Mumbai, IN'',
      page = [UnitText (unit_label ''metric''), Skeleton],
      pending = [PForecast (JNum (Fin 19.076)) (JNum (Fin 72.8777)) ''metric''],
      observing = True\<rparr>"

definition home_loading :: app where
  "home_loading =
     \<lparr>mem = Map.empty, localStorage = [''lastCoords'' \<mapsto> home_json], units = ''metric'',
      lat = JNum (Fin 12.97), lon = JNum (Fin 77.59), place = JStr ''Your location'',
      page = [UnitText (unit_label ''metric''), Skeleton, Skeleton],
      pending = [PForecast (JNum (Fin 19.076)) (JNum (Fin 72.8777)) ''metric'',
                 PForecast (JNum (Fin 12.97)) (JNum (Fin 77.59)) ''metric''],
      observing = True\<rparr>"

definition offline_visit :: app where
  "offline_visit =
     run example_platform
       [(2000, Position (Fin 12.97) (Fin 77.59)), (3000, Response 0 Rejected), (4000, Response 0 Rejected)]
       (startup example_platform 0 Map.empty)"

definition empty_cache :: cache where
  "empty_cache = \<lparr>mem = Map.empty, localStorage = Map.empty\<rparr>"

section \<open>The cache: what a lookup returns\<close>

lemma cacheGet_mem_hit: "mem c K = Some v \<Longrightarrow> cacheGet P now K c = Inr (v, c)"
  by (simp add: cacheGet_def)

lemma mem_cacheSet: "mem (cacheSet P now K V ttl c) K = Some V"
  by (simp add: cacheSet_def)

lemma cacheGet_total: "\<exists>v c'. cacheGet P now K c = Inr (v, c')"
  by (auto simp: cacheGet_def split: option.splits sum.splits prod.splits)

lemma cacheGet_miss_malformed:
  assumes "mem c K = None" "localStorage c K = Some raw" "malformed P raw"
  shows "\<exists>v c'. cacheGet P now K c = Inr (v, c') \<and> absent v"
proof (cases "JSON_parse P raw")
  case (Inl e)
  then show ?thesis using assms by (simp add: cacheGet_def cacheGet_try_def absent_def)
next
  case (Inr obj)
  with assms(3) have ne: "\<not> is_envelope obj" by (simp add: malformed_def)
  show ?thesis
  proof (cases obj)
    case (JObj kvs)
    with ne have "map_of kvs ''val'' = None \<or> map_of kvs ''exp'' = None"
      by (auto simp: is_envelope_def)
    then show ?thesis using assms(1,2) Inr JObj
      by (auto simp: cacheGet_def cacheGet_try_def absent_def js_gt_now_def
               split: sum.splits bool.splits option.splits)
  qed (use assms(1,2) Inr in \<open>simp_all add: cacheGet_def cacheGet_try_def absent_def js_gt_now_def\<close>)
qed

lemma expiredD:
  assumes "expired P now raw"
  obtains kvs n where "JSON_parse P raw = Inr (JObj kvs)" and "map_of kvs ''exp'' = Some (JNum n)"
    and "\<not> num_gt n (Fin (of_int now))"
  using assms unfolding expired_def
  by (auto split: sum.splits jsval.splits option.splits)

lemma cacheGet_miss_expired:
  assumes "mem c K = None" "localStorage c K = Some raw" "expired P now raw"
  shows "cacheGet P now K c = Inr (JNull, c)"
proof -
  from assms(3) obtain kvs n where "JSON_parse P raw = Inr (JObj kvs)"
    and "map_of kvs ''exp'' = Some (JNum n)" and "\<not> num_gt n (Fin (of_int now))"
    by (rule expiredD)
  with assms(1,2) show ?thesis
    by (simp add: cacheGet_def cacheGet_try_def js_gt_now_def)
qed

text \<open>
  C5. For every key, value and positive time-to-live: a lookup right after
  \<open>cacheSet\<close>, at a clock reading that is not past the time-to-live, returns the value
  that was set (and changes nothing).
\<close>

theorem cacheGet_after_cacheSet:
  assumes "0 < ttl" and "now \<le> now'" and "now' \<le> now + ttl"
  shows "cacheGet P now' K (cacheSet P now K V ttl c) = Inr (V, cacheSet P now K V ttl c)"
  by (rule cacheGet_mem_hit) (rule mem_cacheSet)

theorem cacheGet_after_cacheSet_witness:
  "(0 :: int) < 600000 \<and> (1000 :: int) \<le> 1000 \<and> (1000 :: int) \<le> 1000 + 600000 \<and>
   cacheGet example_platform 1000 ''meteo:19.08,72.88:metric''
     (cacheSet example_platform 1000 ''meteo:19.08,72.88:metric'' (JObj []) 600000 empty_cache)
   = Inr (JObj [], cacheSet example_platform 1000 ''meteo:19.08,72.88:metric'' (JObj []) 600000 empty_cache)"
  using cacheGet_after_cacheSet [of 600000 1000 1000 example_platform
          "''meteo:19.08,72.88:metric''" "JObj []" empty_cache]
  by simp

lemma entry_json_ne: "entry_json \<noteq> []"
  by (simp add: entry_json_def)

lemma parse_entry_json:
  "JSON_parse example_platform entry_json = Inr (JObj [(''val'', JArr []), (''exp'', JNum (Fin 5000))])"
  by (simp add: example_platform_def entry_json_def envelope_def)

lemma stringify_entry: "JSON_stringify example_platform (envelope (JArr []) 5000) = entry_json"
  by (simp add: example_platform_def)

text \<open>
  C1. The claim: once the clock is past the set time plus the time-to-live, a lookup
  returns nothing, also while the entry is in the in-memory map. The code does not do
  that: \<open>cacheGet\<close> returns what the in-memory map holds without looking at any expiry
  (the map stores none), so within one page load a value outlives its time-to-live. The
  branch of the same function that reads \<^verbatim>\<open>localStorage\<close> does compare \<^verbatim>\<open>exp\<close> with the
  clock. The theorem runs both on the same entry, set at 4000 for 1000 ms and looked up
  at 6000: with the in-memory map as \<open>cacheSet\<close> left it the value comes back; after a
  reload (the map empty, the stored text unchanged) the lookup returns \<^verbatim>\<open>null\<close>.
\<close>

theorem cacheGet_ignores_expiry_in_memory:
  "cacheGet example_platform 6000 ''geo:pune''
     (cacheSet example_platform 4000 ''geo:pune'' (JArr []) 1000 empty_cache)
     = Inr (JArr [], cacheSet example_platform 4000 ''geo:pune'' (JArr []) 1000 empty_cache) \<and>
   cacheGet example_platform 6000 ''geo:pune''
     ((cacheSet example_platform 4000 ''geo:pune'' (JArr []) 1000 empty_cache)\<lparr>mem := Map.empty\<rparr>)
     = Inr (JNull, (cacheSet example_platform 4000 ''geo:pune'' (JArr []) 1000 empty_cache)\<lparr>mem := Map.empty\<rparr>)"
  by (simp add: cacheGet_def cacheSet_def empty_cache_def stringify_entry cacheGet_try_def
        parse_entry_json entry_json_ne js_gt_now_def)

text \<open>
  C4. A key that is not in the in-memory map and whose stored text is an object with an
  \<^verbatim>\<open>exp\<close> after the clock reading: one lookup returns its \<^verbatim>\<open>val\<close> and puts it into the
  in-memory map; from then on, while the entry is valid, a lookup of the key returns the
  same value and leaves the state alone whatever \<^verbatim>\<open>localStorage\<close> holds and whatever the
  platform's parser would say: the persistent store is not consulted.
\<close>

theorem cacheGet_promotes:
  assumes "mem c K = None" and "localStorage c K = Some raw" and "raw \<noteq> []"
    and "JSON_parse P raw = Inr (JObj kvs)"
    and "map_of kvs ''exp'' = Some (JNum (Fin x))" and "of_int now < x"
    and "map_of kvs ''val'' = Some v"
  shows "cacheGet P now K c = Inr (v, c\<lparr>mem := (mem c)(K \<mapsto> v)\<rparr>) \<and>
         (\<forall>P' now' ls'. of_int now' < x \<longrightarrow>
            cacheGet P' now' K (c\<lparr>mem := (mem c)(K \<mapsto> v), localStorage := ls'\<rparr>)
              = Inr (v, c\<lparr>mem := (mem c)(K \<mapsto> v), localStorage := ls'\<rparr>))"
  using assms by (simp add: cacheGet_def cacheGet_try_def js_gt_now_def)

theorem cacheGet_promotes_witness:
  "mem \<lparr>mem = Map.empty, localStorage = [''geo:pune'' \<mapsto> entry_json]\<rparr> ''geo:pune'' = None \<and>
   localStorage \<lparr>mem = Map.empty, localStorage = [''geo:pune'' \<mapsto> entry_json]\<rparr> ''geo:pune''
     = Some entry_json \<and>
   entry_json \<noteq> [] \<and>
   JSON_parse example_platform entry_json = Inr (JObj [(''val'', JArr []), (''exp'', JNum (Fin 5000))]) \<and>
   map_of [(''val'', JArr []), (''exp'', JNum (Fin 5000))] ''exp'' = Some (JNum (Fin 5000)) \<and>
   of_int 4000 < (5000 :: real) \<and>
   map_of [(''val'', JArr []), (''exp'', JNum (Fin 5000))] ''val'' = Some (JArr []) \<and>
   cacheGet example_platform 4000 ''geo:pune''
       \<lparr>mem = Map.empty, localStorage = [''geo:pune'' \<mapsto> entry_json]\<rparr>
     = Inr (JArr [], \<lparr>mem = [''geo:pune'' \<mapsto> JArr []], localStorage = [''geo:pune'' \<mapsto> entry_json]\<rparr>) \<and>
   of_int 4500 < (5000 :: real) \<and>
   cacheGet example_platform 4500 ''geo:pune'' \<lparr>mem = [''geo:pune'' \<mapsto> JArr []], localStorage = Map.empty\<rparr>
     = Inr (JArr [], \<lparr>mem = [''geo:pune'' \<mapsto> JArr []], localStorage = Map.empty\<rparr>)"
  using cacheGet_promotes [of "\<lparr>mem = Map.empty, localStorage = [''geo:pune'' \<mapsto> entry_json]\<rparr>"
          "''geo:pune''" entry_json example_platform
          "[(''val'', JArr []), (''exp'', JNum (Fin 5000))]" 5000 4000 "JArr []"]
        parse_entry_json entry_json_ne
  by simp

text \<open>
  C8, as amended. For every key and every content of \<^verbatim>\<open>localStorage\<close>, \<open>cacheGet\<close>
  returns and does not raise. When the key is not in the in-memory map, so that the
  lookup reaches the stored text, and the text is malformed or expired, the result is
  absent: it is \<^verbatim>\<open>null\<close>, except for an object that has a live \<^verbatim>\<open>exp\<close> but no \<^verbatim>\<open>val\<close>,
  whose missing \<^verbatim>\<open>val\<close> reads as \<^verbatim>\<open>undefined\<close>.
\<close>

theorem cacheGet_never_raises:
  "(\<exists>v c'. cacheGet P now K c = Inr (v, c')) \<and>
   (mem c K = None \<and> localStorage c K = Some raw \<and> (malformed P raw \<or> expired P now raw)
      \<longrightarrow> (\<exists>v c'. cacheGet P now K c = Inr (v, c') \<and> absent v))"
  using cacheGet_total [of P now K c] cacheGet_miss_malformed [of c K raw P now]
        cacheGet_miss_expired [of c K raw P now]
  by (auto simp: absent_def)

lemma malformed_example: "malformed example_platform ''<html>''"
  by (simp add: malformed_def example_platform_def entry_json_def valueless_json_def home_json_def
        forecast_json_def)

lemma expired_example: "expired example_platform 6000 entry_json"
  by (simp add: expired_def parse_entry_json)

lemma valueless_example:
  "malformed example_platform valueless_json"
  "cacheGet example_platform 4000 ''geo:pune''
     \<lparr>mem = Map.empty, localStorage = [''geo:pune'' \<mapsto> valueless_json]\<rparr>
   = Inr (JUndefined, \<lparr>mem = [''geo:pune'' \<mapsto> JUndefined],
                         localStorage = [''geo:pune'' \<mapsto> valueless_json]\<rparr>)"
proof -
  have p: "JSON_parse example_platform valueless_json = Inr (JObj [(''exp'', JNum (Fin 5000))])"
    by (simp add: example_platform_def valueless_json_def entry_json_def)
  show "malformed example_platform valueless_json"
    by (simp add: malformed_def p is_envelope_def)
  have "valueless_json \<noteq> []" by (simp add: valueless_json_def)
  then show "cacheGet example_platform 4000 ''geo:pune''
     \<lparr>mem = Map.empty, localStorage = [''geo:pune'' \<mapsto> valueless_json]\<rparr>
   = Inr (JUndefined, \<lparr>mem = [''geo:pune'' \<mapsto> JUndefined],
                         localStorage = [''geo:pune'' \<mapsto> valueless_json]\<rparr>)"
    by (simp add: cacheGet_def cacheGet_try_def p js_gt_now_def)
qed

theorem cacheGet_never_raises_witness:
  "malformed example_platform ''<html>'' \<and>
   (\<exists>v c'. cacheGet example_platform 6000 ''geo:pune''
              \<lparr>mem = Map.empty, localStorage = [''geo:pune'' \<mapsto> ''<html>'']\<rparr> = Inr (v, c') \<and> absent v) \<and>
   expired example_platform 6000 entry_json \<and>
   (\<exists>v c'. cacheGet example_platform 6000 ''geo:pune''
              \<lparr>mem = Map.empty, localStorage = [''geo:pune'' \<mapsto> entry_json]\<rparr> = Inr (v, c') \<and> absent v) \<and>
   malformed example_platform valueless_json \<and>
   cacheGet example_platform 4000 ''geo:pune''
       \<lparr>mem = Map.empty, localStorage = [''geo:pune'' \<mapsto> valueless_json]\<rparr>
     = Inr (JUndefined, \<lparr>mem = [''geo:pune'' \<mapsto> JUndefined],
                           localStorage = [''geo:pune'' \<mapsto> valueless_json]\<rparr>) \<and>
   absent JUndefined"
  using cacheGet_never_raises [of example_platform 6000 "''geo:pune''"
          "\<lparr>mem = Map.empty, localStorage = [''geo:pune'' \<mapsto> ''<html>'']\<rparr>" "''<html>''"]
        cacheGet_never_raises [of example_platform 6000 "''geo:pune''"
          "\<lparr>mem = Map.empty, localStorage = [''geo:pune'' \<mapsto> entry_json]\<rparr>" entry_json]
        malformed_example expired_example valueless_example
  by (simp add: absent_def)

text \<open>
  C8, as stated, fails: the in-memory map answers first, and \<open>cacheGet\<close> then does not
  look at the stored text at all. With a value for the key in the in-memory map, the
  lookup returns that value, which is not absent, when the stored text is malformed and
  when it is expired.
\<close>

theorem cacheGet_memory_hit_not_absent:
  "malformed example_platform ''<html>'' \<and>
   cacheGet example_platform 6000 ''geo:pune''
       \<lparr>mem = [''geo:pune'' \<mapsto> JArr []], localStorage = [''geo:pune'' \<mapsto> ''<html>'']\<rparr>
     = Inr (JArr [], \<lparr>mem = [''geo:pune'' \<mapsto> JArr []], localStorage = [''geo:pune'' \<mapsto> ''<html>'']\<rparr>) \<and>
   expired example_platform 6000 entry_json \<and>
   cacheGet example_platform 6000 ''geo:pune''
       \<lparr>mem = [''geo:pune'' \<mapsto> JArr []], localStorage = [''geo:pune'' \<mapsto> entry_json]\<rparr>
     = Inr (JArr [], \<lparr>mem = [''geo:pune'' \<mapsto> JArr []], localStorage = [''geo:pune'' \<mapsto> entry_json]\<rparr>) \<and>
   \<not> absent (JArr [])"
  using malformed_example expired_example by (simp add: cacheGet_def absent_def)

section \<open>The forecast wrapper\<close>







lemma digit_char_numeral:
  "digit_char 0 = CHR ''0''" "digit_char 1 = CHR ''1''" "digit_char 2 = CHR ''2''"
  "digit_char 3 = CHR ''3''" "digit_char 4 = CHR ''4''" "digit_char 5 = CHR ''5''"
  "digit_char 6 = CHR ''6''" "digit_char 7 = CHR ''7''" "digit_char 8 = CHR ''8''"
  "digit_char 9 = CHR ''9''" "digit_char (Suc 0) = CHR ''1''"
  by (simp_all add: digit_char_def char_of_eq_iff)

lemma decimal_digit: "n < 10 \<Longrightarrow> decimal n = [digit_char n]"
  by (subst decimal.simps) simp

lemma decimal_more: "\<not> n < 10 \<Longrightarrow> decimal n = decimal (n div 10) @ [digit_char (n mod 10)]"
  by (subst decimal.simps) simp






lemma forecast_url_numbers:
  "forecast_url P (JNum a) (JNum b) u =
     Inr (''https://api.open-meteo.com/v1/forecast?latitude='' @ Number_toString P a @ ''&longitude='' @
          Number_toString P b @
          ''&current_weather=true&hourly=temperature_2m,precipitation_probability'' @
          ''&daily=temperature_2m_max,temperature_2m_min,precipitation_probability_mean,weathercode'' @
          ''&forecast_days=7&timezone=auto&temperature_unit='' @ temperature_unit u)"
  by (simp add: forecast_url_def)






lemma toFixed2_examples:
  "toFixed2 P (JNum (Fin 19.076)) = Inr ''19.08''"
  "toFixed2 P (JNum (Fin 72.8777)) = Inr ''72.88''"
  by (simp_all add: hundredths_def fixed2_def decimal_digit decimal_more digit_char_numeral)

lemma forecast_key_example:
  "forecast_key P (JNum (Fin 19.076)) (JNum (Fin 72.8777)) ''metric'' = Inr ''meteo:19.08,72.88:metric''"
  by (simp only: forecast_key_def toFixed2_examples sum.case) simp




section \<open>The geocoding wrapper\<close>







section \<open>The debounced search: when the lookup is called\<close>

lemma debounce_four:
  "debounce_run 300 None [(0, a), (50, b), (100, c), (300, d)] = [(600, d)]"
  by (simp add: debounced_call_def)

text \<open>
  C3, as amended. For keystrokes at 0, 50, 100 and 300 ms and the wait of 300 ms, each
  keystroke cancels the timeout set by the one before it, the last one at 300 ms included
  (the timeout then pending was due at 400 ms). So exactly one \<open>geocode\<close> call is made,
  at 600 ms, with the final input value, provided that value is not blank.
\<close>

theorem search_debounced_once:
  assumes "trim P d \<noteq> []"
  shows "geocode_calls P [(0, a), (50, b), (100, c), (300, d)] = [(600, d)]"
  unfolding geocode_calls_def debounce_four using assms by simp

lemma trim_example: "trim example_platform ''lond'' = ''lond''"
  by (simp add: example_platform_def ascii_trim_def ascii_space_def)

theorem search_debounced_once_witness:
  "trim example_platform ''lond'' \<noteq> [] \<and>
   geocode_calls example_platform [(0, ''l''), (50, ''lo''), (100, ''lon''), (300, ''lond'')] = [(600, ''lond'')]"
  using search_debounced_once [of example_platform "''lond''" "''l''" "''lo''" "''lon''"] trim_example
  by simp

text \<open>
  C3, as stated, fails: for the inputs \<^verbatim>\<open>l\<close>, \<^verbatim>\<open>lo\<close>, \<^verbatim>\<open>lon\<close>, \<^verbatim>\<open>lond\<close> at 0, 50, 100
  and 300 ms the calls are not the single call at 400 ms.
\<close>

theorem search_not_at_400:
  "geocode_calls example_platform [(0, ''l''), (50, ''lo''), (100, ''lon''), (300, ''lond'')] \<noteq> [(400, ''lond'')]"
  unfolding geocode_calls_def debounce_four by (simp add: trim_example)

section \<open>The controller: what a task changes\<close>

lemma cacheGet_app:
  "cacheGet P now K s = Inr (v, s') \<Longrightarrow> same_session s s' \<and> localStorage s' = localStorage s"
  by (auto simp: same_session_def cacheGet_def cacheGet_try_def
           split: option.splits sum.splits prod.splits if_splits bool.splits)

lemma forecast_key_not_lastCoords: "forecast_key P la lo u = Inr key \<Longrightarrow> key \<noteq> ''lastCoords''"
  by (auto simp: forecast_key_def split: sum.splits)

lemma cacheSet_app: "K \<noteq> ''lastCoords'' \<Longrightarrow> same_session s (cacheSet P now K v ttl s)"
  by (simp add: same_session_def cacheSet_def)

lemma forecast_start_app:
  "forecast_start P now la lo u s = Inr (r, s') \<Longrightarrow> same_session s s' \<and> localStorage s' = localStorage s"
  by (auto simp: forecast_start_def getJSON_start_def split: sum.splits prod.splits if_splits
           dest: cacheGet_app)

lemma geocode_start_app:
  "geocode_start P now q s = Inr (r, s') \<Longrightarrow> same_session s s' \<and> localStorage s' = localStorage s"
  by (auto simp: geocode_start_def split: sum.splits prod.splits if_splits dest: cacheGet_app)

lemma forecast_resume_app:
  "forecast_resume P now la lo u outcome s = Inr (r, s') \<Longrightarrow> same_session s s'"
  by (auto simp: forecast_resume_def getJSON_resume_def
           split: sum.splits fetch_outcome.splits dest!: forecast_key_not_lastCoords intro: cacheSet_app)

lemma geocode_resume_app:
  "geocode_resume P now q outcome s = Inr (r, s') \<Longrightarrow> same_session s s'"
  by (auto simp: geocode_resume_def Let_def geocode_key_def
           split: sum.splits fetch_outcome.splits intro!: cacheSet_app)

lemma loadWeather_start_app:
  assumes "loadWeather_start P now la lo s = (k, s')"
  shows "lat s' = la \<and> lon s' = lo \<and> place s' = place s \<and> units s' = units s \<and>
         observing s' = observing s \<and> localStorage s' = localStorage s \<and>
         page s' = page s @ [Skeleton]"
proof -
  let ?s1 = "s\<lparr>lat := la, lon := lo, page := page s @ [Skeleton]\<rparr>"
  show ?thesis
  proof (cases "forecast_start P now la lo (units ?s1) ?s1")
    case (Inl e)
    with assms show ?thesis by (auto simp: loadWeather_start_def Let_def)
  next
    case (Inr rc)
    obtain r c where rc: "rc = (r, c)" by (cases rc)
    from forecast_start_app [OF Inr [unfolded rc]]
    have f: "same_session ?s1 c" "localStorage c = localStorage ?s1" by simp_all
    show ?thesis
    proof (cases r)
      case (Done x)
      with assms Inr rc f show ?thesis
        by (auto simp: loadWeather_start_def Let_def same_session_def)
    next
      case (Fetch url)
      with assms Inr rc f show ?thesis
        by (auto simp: loadWeather_start_def Let_def same_session_def)
    qed
  qed
qed

lemma loadWeather_render_app:
  "\<exists>ws. loadWeather_render P la lo r s = s\<lparr>page := page s @ ws\<rparr>"
  by (simp add: loadWeather_render_def) blast

lemma loadWeather_app:
  "lat (loadWeather P now la lo s) = la \<and> lon (loadWeather P now la lo s) = lo \<and>
   place (loadWeather P now la lo s) = place s \<and> units (loadWeather P now la lo s) = units s \<and>
   observing (loadWeather P now la lo s) = observing s \<and>
   localStorage (loadWeather P now la lo s) = localStorage s \<and>
   (\<exists>ws. page (loadWeather P now la lo s) = page s @ Skeleton # ws)"
proof -
  obtain k s' where st: "loadWeather_start P now la lo s = (k, s')"
    by (cases "loadWeather_start P now la lo s")
  note a = loadWeather_start_app [OF st]
  show ?thesis
  proof (cases k)
    case None
    with st a show ?thesis by (simp add: loadWeather_def)
  next
    case (Some r)
    obtain ws where "loadWeather_render P la lo r s' = s'\<lparr>page := page s' @ ws\<rparr>"
      using loadWeather_render_app by blast
    with Some st a show ?thesis by (simp add: loadWeather_def)
  qed
qed

lemma search_show_app:
  "\<exists>ws. search_show P results s = s\<lparr>page := page s @ ws\<rparr>"
proof -
  have self: "s = s\<lparr>page := page s @ []\<rparr>" by simp
  have "search_show P results s = s \<or>
        (\<exists>bs. search_show P results s = s\<lparr>page := page s @ [Suggestions bs, SuggestDisplay True]\<rparr>) \<or>
        search_show P results s = s\<lparr>page := page s @ [SuggestDisplay False]\<rparr>"
    by (auto simp: search_show_def split: jsval.splits list.splits sum.splits)
  then show ?thesis using self by metis
qed

lemma handle_app:
  "localStorage (handle P now e s) ''lastCoords'' = localStorage s ''lastCoords'' \<and>
   observing (handle P now e s) = observing s \<and>
   (\<exists>ws. page (handle P now e s) = page s @ ws)"
proof (cases e)
  case (UnitToggle checked)
  let ?u = "if checked then ''imperial'' else ''metric''"
  let ?s1 = "s\<lparr>localStorage := (localStorage s)(''units'' \<mapsto> ?u), units := ?u,
                 page := page s @ [UnitText (unit_label ?u)]\<rparr>"
  show ?thesis
  proof (cases "truthy (lat s) \<and> truthy (lon s)")
    case True
    then have "handle P now e s = loadWeather P now (lat s) (lon s) ?s1"
      using UnitToggle by (simp add: handle_def setUnits_def Let_def)
    then show ?thesis using loadWeather_app [of P now "lat s" "lon s" ?s1] by auto
  next
    case False
    then have "handle P now e s = ?s1"
      using UnitToggle by (auto simp add: handle_def setUnits_def Let_def)
    then show ?thesis by simp
  qed
next
  case (SuggestClick las los name)
  let ?s1 = "s\<lparr>place := JStr name, page := page s @ [SuggestDisplay False, QueryValue name]\<rparr>"
  have "handle P now e s = loadWeather P now (JNum (parseFloat P las)) (JNum (parseFloat P los)) ?s1"
    using SuggestClick by (simp add: handle_def suggest_click_def)
  then show ?thesis
    using loadWeather_app [of P now "JNum (parseFloat P las)" "JNum (parseFloat P los)" ?s1] by auto
next
  case (Position la lo)
  let ?s1 = "s\<lparr>place := JStr ''Your location''\<rparr>"
  have "handle P now e s = loadWeather P now (JNum la) (JNum lo) ?s1"
    using Position by (simp add: handle_def position_found_def)
  then show ?thesis using loadWeather_app [of P now "JNum la" "JNum lo" ?s1] by auto
next
  case (Search query)
  show ?thesis
  proof (cases "trim P query = []")
    case True
    then show ?thesis using Search by (simp add: handle_def search_start_def)
  next
    case False
    show ?thesis
    proof (cases "geocode_start P now query s")
      case (Inl err)
      then show ?thesis using Search False by (simp add: handle_def search_start_def)
    next
      case (Inr rc)
      obtain r c where rc: "rc = (r, c)" by (cases rc)
      from geocode_start_app [OF Inr [unfolded rc]]
      have f: "same_session s c" by simp
      show ?thesis
      proof (cases r)
        case (Done results)
        obtain ws where "search_show P results c = c\<lparr>page := page c @ ws\<rparr>"
          using search_show_app by blast
        then show ?thesis using Search False Inr rc Done f
          by (simp add: handle_def search_start_def same_session_def)
      next
        case (Fetch url)
        then show ?thesis using Search False Inr rc f
          by (simp add: handle_def search_start_def same_session_def)
      qed
    qed
  qed
next
  case (Response i outcome)
  show ?thesis
  proof (cases "i < length (pending s)")
    case False
    then show ?thesis using Response by (simp add: handle_def)
  next
    case True
    let ?s1 = "s\<lparr>pending := take i (pending s) @ drop (Suc i) (pending s)\<rparr>"
    have h: "handle P now e s = resume P now (pending s ! i) outcome ?s1"
      using Response True by (simp add: handle_def)
    show ?thesis
    proof (cases "pending s ! i")
      case (PForecast la lo u)
      show ?thesis
      proof (cases "forecast_resume P now la lo u outcome ?s1")
        case (Inl err)
        then show ?thesis using h PForecast by (simp add: resume_def)
      next
        case (Inr rc)
        obtain r c where rc: "rc = (r, c)" by (cases rc)
        from forecast_resume_app [OF Inr [unfolded rc]] have f: "same_session ?s1 c" .
        obtain ws where "loadWeather_render P la lo r c = c\<lparr>page := page c @ ws\<rparr>"
          using loadWeather_render_app by blast
        then show ?thesis using h PForecast Inr rc f
          by (simp add: resume_def same_session_def)
      qed
    next
      case (PGeocode q)
      show ?thesis
      proof (cases "geocode_resume P now q outcome ?s1")
        case (Inl err)
        then show ?thesis using h PGeocode by (simp add: resume_def)
      next
        case (Inr rc)
        obtain r c where rc: "rc = (r, c)" by (cases rc)
        from geocode_resume_app [OF Inr [unfolded rc]] have f: "same_session ?s1 c" .
        obtain ws where "search_show P r c = c\<lparr>page := page c @ ws\<rparr>"
          using search_show_app by blast
        then show ?thesis using h PGeocode Inr rc f
          by (simp add: resume_def same_session_def)
      qed
    qed
  qed
qed

section \<open>The controller: the observer, the first load and the unit toggle\<close>

lemma deliver_cases:
  "deliver P n s = s \<or>
   (observing s \<and> list_ex changes_children (drop n (page s)) \<and> truthy (lat s) \<and> truthy (lon s) \<and>
    deliver P n s =
      s\<lparr>localStorage := (localStorage s)(''lastCoords'' \<mapsto> JSON_stringify P (lastCoords_record s))\<rparr>)"
  by (simp add: deliver_def observer_callback_def)

lemma deliver_fires:
  "observing s \<Longrightarrow> list_ex changes_children (drop n (page s)) \<Longrightarrow> truthy (lat s) \<Longrightarrow> truthy (lon s) \<Longrightarrow>
   deliver P n s =
     s\<lparr>localStorage := (localStorage s)(''lastCoords'' \<mapsto> JSON_stringify P (lastCoords_record s))\<rparr>"
  by (simp add: deliver_def observer_callback_def)

lemma deliver_session:
  "lat (deliver P n s) = lat s" "lon (deliver P n s) = lon s" "place (deliver P n s) = place s"
  "page (deliver P n s) = page s" "observing (deliver P n s) = observing s"
  "pending (deliver P n s) = pending s" "units (deliver P n s) = units s" "mem (deliver P n s) = mem s"
  by (simp_all add: deliver_def observer_callback_def)

lemma lastCoords_record_deliver: "lastCoords_record (deliver P n s) = lastCoords_record s"
  by (simp add: lastCoords_record_def deliver_session)

lemma step_lastCoords_changed:
  assumes "localStorage (step P now e s) ''lastCoords'' \<noteq> localStorage s ''lastCoords''"
  shows "observing s \<and>
         list_ex changes_children (drop (length (page s)) (page (step P now e s))) \<and>
         truthy (lat (step P now e s)) \<and> truthy (lon (step P now e s)) \<and>
         localStorage (step P now e s) ''lastCoords''
           = Some (JSON_stringify P (lastCoords_record (step P now e s)))"
proof -
  let ?h = "handle P now e s"
  have h: "localStorage ?h ''lastCoords'' = localStorage s ''lastCoords''" "observing ?h = observing s"
    using handle_app [of P now e s] by simp_all
  have st: "step P now e s = deliver P (length (page s)) ?h" by (simp add: step_def)
  from deliver_cases [of P "length (page s)" ?h] assms h(1)
  have fired: "observing ?h" "list_ex changes_children (drop (length (page s)) (page ?h))"
    "truthy (lat ?h)" "truthy (lon ?h)"
    and eq: "deliver P (length (page s)) ?h =
       ?h\<lparr>localStorage := (localStorage ?h)(''lastCoords'' \<mapsto> JSON_stringify P (lastCoords_record ?h))\<rparr>"
    unfolding st by auto
  have "localStorage (step P now e s) ''lastCoords'' = Some (JSON_stringify P (lastCoords_record ?h))"
    unfolding st by (subst eq) simp
  then show ?thesis
    using fired h(2) unfolding st by (simp add: deliver_session lastCoords_record_deliver)
qed

lemma step_load_persists:
  assumes "observing s" and "handle P now e s = loadWeather P now la lo s1"
    and "observing s1 = observing s" and "\<exists>ws. page s1 = page s @ ws"
    and "truthy la" and "truthy lo"
  shows "localStorage (step P now e s) ''lastCoords''
           = Some (JSON_stringify P (JObj [(''lat'', la), (''lon'', lo), (''place'', place s1)]))"
proof -
  let ?h = "loadWeather P now la lo s1"
  note a = loadWeather_app [of P now la lo s1]
  from a assms(4) obtain ws ws' where pg: "page ?h = (page s @ ws) @ Skeleton # ws'" by auto
  have "observing ?h" using a assms(1,3) by simp
  moreover have "list_ex changes_children (drop (length (page s)) (page ?h))"
    unfolding pg by (simp add: list_ex_iff)
  moreover have "truthy (lat ?h)" "truthy (lon ?h)" using a assms(5,6) by simp_all
  ultimately have "deliver P (length (page s)) ?h =
      ?h\<lparr>localStorage := (localStorage ?h)(''lastCoords'' \<mapsto> JSON_stringify P (lastCoords_record ?h))\<rparr>"
    by (rule deliver_fires)
  moreover have "lastCoords_record ?h = JObj [(''lat'', la), (''lon'', lo), (''place'', place s1)]"
    using a by (simp add: lastCoords_record_def)
  ultimately show ?thesis by (simp add: step_def assms(2))
qed

lemma startup_target:
  assumes "init_target P ls = Inr (pl, la, lo)"
  shows "lat (startup P now ls) = la \<and> lon (startup P now ls) = lo \<and> place (startup P now ls) = pl \<and>
         units (startup P now ls) = or_default (ls ''units'') ''metric'' \<and> observing (startup P now ls) \<and>
         (\<exists>ws. page (startup P now ls)
                 = [UnitText (unit_label (or_default (ls ''units'') ''metric'')), Skeleton] @ ws)"
proof -
  let ?s0 = "(initial ls)\<lparr>place := pl\<rparr>"
  obtain k s1 where st: "loadWeather_start P now la lo ?s0 = (k, s1)"
    by (cases "loadWeather_start P now la lo ?s0")
  note a = loadWeather_start_app [OF st]
  let ?s2 = "s1\<lparr>observing := True\<rparr>"
  let ?s3 = "case k of None \<Rightarrow> ?s2 | Some r \<Rightarrow> loadWeather_render P la lo r ?s2"
  have su: "startup P now ls = deliver P (length (page ?s2)) ?s3"
    by (simp only: startup_def assms sum.case prod.case st Let_def)
  have "\<exists>ws. ?s3 = ?s2\<lparr>page := page ?s2 @ ws\<rparr>"
  proof (cases k)
    case None
    have "?s2 = ?s2\<lparr>page := page ?s2 @ []\<rparr>" by simp
    then show ?thesis unfolding None option.case by (rule exI)
  next
    case (Some r)
    show ?thesis unfolding Some option.case by (rule loadWeather_render_app)
  qed
  then obtain ws where s3: "?s3 = ?s2\<lparr>page := page ?s2 @ ws\<rparr>" ..
  show ?thesis
    unfolding su s3 using a by (simp add: deliver_session initial_def)
qed

lemma startup_restores:
  assumes "ls ''lastCoords'' = Some raw" and "raw \<noteq> []"
    and "JSON_parse P raw = Inr (lastCoords_record s)"
  shows "lat (startup P now ls) = lat s \<and> lon (startup P now ls) = lon s \<and>
         place (startup P now ls) = place s"
proof -
  have "init_target P ls = Inr (place s, lat s, lon s)"
    using assms by (simp add: init_target_def lastCoords_record_def)
  from startup_target [OF this] show ?thesis by simp
qed

lemma resume_target:
  "lat (resume P now p outcome s) = lat s \<and> lon (resume P now p outcome s) = lon s \<and>
   place (resume P now p outcome s) = place s"
proof (cases p)
  case (PForecast la lo u)
  show ?thesis
  proof (cases "forecast_resume P now la lo u outcome s")
    case (Inl err)
    then show ?thesis using PForecast by (simp add: resume_def)
  next
    case (Inr rc)
    obtain r c where rc: "rc = (r, c)" by (cases rc)
    from forecast_resume_app [OF Inr [unfolded rc]] have f: "same_session s c" .
    obtain ws where "loadWeather_render P la lo r c = c\<lparr>page := page c @ ws\<rparr>"
      using loadWeather_render_app by blast
    then show ?thesis using PForecast Inr rc f by (simp add: resume_def same_session_def)
  qed
next
  case (PGeocode q)
  show ?thesis
  proof (cases "geocode_resume P now q outcome s")
    case (Inl err)
    then show ?thesis using PGeocode by (simp add: resume_def)
  next
    case (Inr rc)
    obtain r c where rc: "rc = (r, c)" by (cases rc)
    from geocode_resume_app [OF Inr [unfolded rc]] have f: "same_session s c" .
    obtain ws where "search_show P r c = c\<lparr>page := page c @ ws\<rparr>"
      using search_show_app by blast
    then show ?thesis using PGeocode Inr rc f by (simp add: resume_def same_session_def)
  qed
qed

lemma search_start_target:
  "lat (search_start P now q s) = lat s \<and> lon (search_start P now q s) = lon s \<and>
   place (search_start P now q s) = place s"
proof (cases "trim P q = []")
  case True
  then show ?thesis by (simp add: search_start_def)
next
  case False
  show ?thesis
  proof (cases "geocode_start P now q s")
    case (Inl err)
    then show ?thesis using False by (simp add: search_start_def)
  next
    case (Inr rc)
    obtain r c where rc: "rc = (r, c)" by (cases rc)
    from geocode_start_app [OF Inr [unfolded rc]] have f: "same_session s c" by simp
    show ?thesis
    proof (cases r)
      case (Done results)
      obtain ws where "search_show P results c = c\<lparr>page := page c @ ws\<rparr>"
        using search_show_app by blast
      then show ?thesis using False Inr rc Done f by (simp add: search_start_def same_session_def)
    next
      case (Fetch url)
      then show ?thesis using False Inr rc f by (simp add: search_start_def same_session_def)
    qed
  qed
qed

lemma setUnits_target:
  "lat (setUnits P now u s) = lat s \<and> lon (setUnits P now u s) = lon s \<and>
   place (setUnits P now u s) = place s"
proof -
  let ?s1 = "s\<lparr>localStorage := (localStorage s)(''units'' \<mapsto> u), units := u,
                 page := page s @ [UnitText (unit_label u)]\<rparr>"
  show ?thesis
  proof (cases "truthy (lat s) \<and> truthy (lon s)")
    case True
    then have "setUnits P now u s = loadWeather P now (lat s) (lon s) ?s1"
      by (simp add: setUnits_def Let_def)
    then show ?thesis using loadWeather_app [of P now "lat s" "lon s" ?s1] by simp
  next
    case False
    then have "setUnits P now u s = ?s1" by (auto simp add: setUnits_def Let_def)
    then show ?thesis by simp
  qed
qed

lemma step_target:
  "lastCoords_record (step P now (Position la lo) s)
     = JObj [(''lat'', JNum la), (''lon'', JNum lo), (''place'', JStr ''Your location'')]"
  "lastCoords_record (step P now (SuggestClick las los name) s)
     = JObj [(''lat'', JNum (parseFloat P las)), (''lon'', JNum (parseFloat P los)), (''place'', JStr name)]"
  "lastCoords_record (step P now (UnitToggle checked) s) = lastCoords_record s"
  "lastCoords_record (step P now (Search q) s) = lastCoords_record s"
  "lastCoords_record (step P now (Response i outcome) s) = lastCoords_record s"
proof -
  show "lastCoords_record (step P now (Position la lo) s)
     = JObj [(''lat'', JNum la), (''lon'', JNum lo), (''place'', JStr ''Your location'')]"
    using loadWeather_app [of P now "JNum la" "JNum lo" "s\<lparr>place := JStr ''Your location''\<rparr>"]
    by (simp add: step_def deliver_session handle_def position_found_def lastCoords_record_def)
  show "lastCoords_record (step P now (SuggestClick las los name) s)
     = JObj [(''lat'', JNum (parseFloat P las)), (''lon'', JNum (parseFloat P los)), (''place'', JStr name)]"
    using loadWeather_app [of P now "JNum (parseFloat P las)" "JNum (parseFloat P los)"
            "s\<lparr>place := JStr name, page := page s @ [SuggestDisplay False, QueryValue name]\<rparr>"]
    by (simp add: step_def deliver_session handle_def suggest_click_def lastCoords_record_def)
  show "lastCoords_record (step P now (UnitToggle checked) s) = lastCoords_record s"
    using setUnits_target [of P now "if checked then ''imperial'' else ''metric''" s]
    by (simp add: step_def deliver_session handle_def lastCoords_record_def)
  show "lastCoords_record (step P now (Search q) s) = lastCoords_record s"
    using search_start_target [of P now q s]
    by (simp add: step_def deliver_session handle_def lastCoords_record_def)
  show "lastCoords_record (step P now (Response i outcome) s) = lastCoords_record s"
    using resume_target [of P now "pending s ! i" outcome
            "s\<lparr>pending := take i (pending s) @ drop (Suc i) (pending s)\<rparr>"]
    by (simp add: step_def deliver_session handle_def lastCoords_record_def)
qed

lemma handle_quiet:
  assumes "\<not> list_ex changes_children (drop (length (page s)) (page (handle P now e s)))"
  shows "lastCoords_record (handle P now e s) = lastCoords_record s"
proof (cases e)
  case (UnitToggle checked)
  then show ?thesis
    using setUnits_target [of P now "if checked then ''imperial'' else ''metric''" s]
    by (simp add: handle_def lastCoords_record_def)
next
  case (SuggestClick las los name)
  obtain ws where "page (handle P now e s) = (page s @ [SuggestDisplay False, QueryValue name]) @ Skeleton # ws"
    using loadWeather_app [of P now "JNum (parseFloat P las)" "JNum (parseFloat P los)"
            "s\<lparr>place := JStr name, page := page s @ [SuggestDisplay False, QueryValue name]\<rparr>"]
    unfolding SuggestClick by (auto simp add: handle_def suggest_click_def)
  then have "list_ex changes_children (drop (length (page s)) (page (handle P now e s)))"
    by (simp add: list_ex_iff)
  with assms show ?thesis by simp
next
  case (Position la lo)
  obtain ws where "page (handle P now e s) = page s @ Skeleton # ws"
    using loadWeather_app [of P now "JNum la" "JNum lo" "s\<lparr>place := JStr ''Your location''\<rparr>"]
    unfolding Position by (auto simp add: handle_def position_found_def)
  then have "list_ex changes_children (drop (length (page s)) (page (handle P now e s)))"
    by (simp add: list_ex_iff)
  with assms show ?thesis by simp
next
  case (Search q)
  then show ?thesis using search_start_target [of P now q s]
    by (simp add: handle_def lastCoords_record_def)
next
  case (Response i outcome)
  then show ?thesis
    using resume_target [of P now "pending s ! i" outcome
            "s\<lparr>pending := take i (pending s) @ drop (Suc i) (pending s)\<rparr>"]
    by (simp add: handle_def lastCoords_record_def)
qed

lemma record_fields:
  "lastCoords_record s' = lastCoords_record s \<Longrightarrow> lat s' = lat s \<and> lon s' = lon s \<and> place s' = place s"
  by (simp add: lastCoords_record_def)

lemma startup_observing: "observing (startup P now ls) = (\<exists>t. init_target P ls = Inr t)"
proof (cases "init_target P ls")
  case (Inl err)
  then show ?thesis by (simp add: startup_def initial_def)
next
  case (Inr t)
  obtain pl la lo where "t = (pl, la, lo)" by (cases t)
  with Inr startup_target [of P ls pl la lo now] show ?thesis by simp
qed


lemma startup_quiet:
  assumes "\<not> seen_change (startup P now ls)"
  shows "localStorage (startup P now ls) ''lastCoords'' = ls ''lastCoords''"
proof (cases "init_target P ls")
  case (Inl err)
  then show ?thesis by (simp add: startup_def initial_def)
next
  case (Inr t)
  obtain pl la lo where t: "t = (pl, la, lo)" by (cases t)
  let ?s0 = "(initial ls)\<lparr>place := pl\<rparr>"
  obtain k s1 where st: "loadWeather_start P now la lo ?s0 = (k, s1)"
    by (cases "loadWeather_start P now la lo ?s0")
  note a = loadWeather_start_app [OF st]
  let ?s2 = "s1\<lparr>observing := True\<rparr>"
  let ?s3 = "case k of None \<Rightarrow> ?s2 | Some r \<Rightarrow> loadWeather_render P la lo r ?s2"
  have su: "startup P now ls = deliver P (length (page ?s2)) ?s3"
    by (simp only: startup_def Inr t sum.case prod.case st Let_def)
  have "\<exists>ws. ?s3 = ?s2\<lparr>page := page ?s2 @ ws\<rparr>"
  proof (cases k)
    case None
    have "?s2 = ?s2\<lparr>page := page ?s2 @ []\<rparr>" by simp
    then show ?thesis unfolding None option.case by (rule exI)
  next
    case (Some r)
    show ?thesis unfolding Some option.case by (rule loadWeather_render_app)
  qed
  then obtain ws where s3: "?s3 = ?s2\<lparr>page := page ?s2 @ ws\<rparr>" ..
  have len: "length (page ?s2) = 2" using a by (simp add: initial_def)
  have ls3: "localStorage ?s3 = ls" unfolding s3 using a by (simp add: initial_def)
  have "\<not> list_ex changes_children (drop 2 (page ?s3))"
    using assms unfolding seen_change_def su by (simp add: deliver_session)
  then have "deliver P (length (page ?s2)) ?s3 = ?s3"
    unfolding len by (simp add: deliver_def)
  then show ?thesis unfolding su using ls3 by simp
qed

lemma startup_seen:
  assumes "observing (startup P now ls)" and "truthy (lat (startup P now ls))"
    and "truthy (lon (startup P now ls))" and "seen_change (startup P now ls)"
  shows "localStorage (startup P now ls) ''lastCoords''
           = Some (JSON_stringify P (lastCoords_record (startup P now ls)))"
proof (cases "init_target P ls")
  case (Inl err)
  then show ?thesis using assms(1) by (simp add: startup_def initial_def)
next
  case (Inr t)
  obtain pl la lo where t: "t = (pl, la, lo)" by (cases t)
  let ?s0 = "(initial ls)\<lparr>place := pl\<rparr>"
  obtain k s1 where st: "loadWeather_start P now la lo ?s0 = (k, s1)"
    by (cases "loadWeather_start P now la lo ?s0")
  note a = loadWeather_start_app [OF st]
  let ?s2 = "s1\<lparr>observing := True\<rparr>"
  let ?s3 = "case k of None \<Rightarrow> ?s2 | Some r \<Rightarrow> loadWeather_render P la lo r ?s2"
  have su: "startup P now ls = deliver P (length (page ?s2)) ?s3"
    by (simp only: startup_def Inr t sum.case prod.case st Let_def)
  have len: "length (page ?s2) = 2" using a by (simp add: initial_def)
  have o: "observing ?s3" using assms(1) unfolding su by (simp add: deliver_session)
  have c: "list_ex changes_children (drop (length (page ?s2)) (page ?s3))"
    using assms(4) unfolding seen_change_def su len by (simp add: deliver_session)
  have t1: "truthy (lat ?s3)" using assms(2) unfolding su by (simp add: deliver_session)
  have t2: "truthy (lon ?s3)" using assms(3) unfolding su by (simp add: deliver_session)
  have "deliver P (length (page ?s2)) ?s3 =
      ?s3\<lparr>localStorage := (localStorage ?s3)(''lastCoords'' \<mapsto> JSON_stringify P (lastCoords_record ?s3))\<rparr>"
    using o c t1 t2 by (rule deliver_fires)
  then show ?thesis unfolding su by (simp add: lastCoords_record_def)
qed

lemma quiet_append:
  assumes "list_ex Q (drop n (xs @ ws))" and "\<not> list_ex Q ws"
  shows "list_ex Q (drop n xs)"
proof -
  have "set (drop (n - length xs) ws) \<subseteq> set ws" by (rule set_drop_subset)
  with assms(2) have "\<not> list_ex Q (drop (n - length xs) ws)" by (auto simp: list_ex_iff)
  with assms(1) show ?thesis by (auto simp: list_ex_iff)
qed

lemma lastCoords_invariant:
  assumes "reachable P s"
  shows "observing s \<Longrightarrow> truthy (lat s) \<Longrightarrow> truthy (lon s) \<Longrightarrow> seen_change s \<Longrightarrow>
         localStorage s ''lastCoords'' = Some (JSON_stringify P (lastCoords_record s))"
  using assms
proof (induction rule: reachable.induct)
  case (reachable_startup now ls)
  then show ?case by (rule startup_seen)
next
  case (reachable_step s now e)
  let ?h = "handle P now e s"
  have st: "step P now e s = deliver P (length (page s)) ?h" by (simp add: step_def)
  note h = handle_app [of P now e s]
  from h obtain ws where pg: "page ?h = page s @ ws" by blast
  have o: "observing ?h" using reachable_step.prems(1) unfolding st by (simp add: deliver_session)
  have t1: "truthy (lat ?h)" using reachable_step.prems(2) unfolding st by (simp add: deliver_session)
  have t2: "truthy (lon ?h)" using reachable_step.prems(3) unfolding st by (simp add: deliver_session)
  have sc: "list_ex changes_children (drop 2 (page s @ ws))"
    using reachable_step.prems(4) unfolding seen_change_def st by (simp add: deliver_session pg)
  show ?case
  proof (cases "list_ex changes_children (drop (length (page s)) (page ?h))")
    case True
    with o t1 t2 have "deliver P (length (page s)) ?h =
      ?h\<lparr>localStorage := (localStorage ?h)(''lastCoords'' \<mapsto> JSON_stringify P (lastCoords_record ?h))\<rparr>"
      by (intro deliver_fires)
    then show ?thesis unfolding st by (simp add: lastCoords_record_def)
  next
    case False
    then have q: "\<not> list_ex changes_children ws" by (simp add: pg)
    from False have d: "deliver P (length (page s)) ?h = ?h" by (simp add: deliver_def)
    from handle_quiet [OF False] have r: "lastCoords_record ?h = lastCoords_record s" .
    from record_fields [OF r] have f: "lat ?h = lat s" "lon ?h = lon s" by simp_all
    have "seen_change s" unfolding seen_change_def using sc q by (rule quiet_append)
    moreover have "observing s" using o h by simp
    moreover have "truthy (lat s)" "truthy (lon s)" using t1 t2 f by simp_all
    ultimately have "localStorage s ''lastCoords'' = Some (JSON_stringify P (lastCoords_record s))"
      using reachable_step.IH by blast
    then show ?thesis unfolding st d r using h by simp
  qed
qed

lemma step_observing: "observing (step P now e s) = observing s"
  using handle_app [of P now e s] by (simp add: step_def deliver_session)

lemma step_toggle_persists:
  assumes "observing s" and "truthy (lat s)" and "truthy (lon s)"
  shows "localStorage (step P now (UnitToggle checked) s) ''lastCoords''
           = Some (JSON_stringify P (lastCoords_record s))"
proof -
  let ?u = "if checked then ''imperial'' else ''metric''"
  let ?s1 = "s\<lparr>localStorage := (localStorage s)(''units'' \<mapsto> ?u), units := ?u,
                 page := page s @ [UnitText (unit_label ?u)]\<rparr>"
  have h: "handle P now (UnitToggle checked) s = loadWeather P now (lat s) (lon s) ?s1"
    using assms(2,3) by (simp add: handle_def setUnits_def Let_def)
  have "localStorage (step P now (UnitToggle checked) s) ''lastCoords''
           = Some (JSON_stringify P (JObj [(''lat'', lat s), (''lon'', lon s), (''place'', place ?s1)]))"
    using assms by (intro step_load_persists [OF _ h]) simp_all
  then show ?thesis by (simp add: lastCoords_record_def)
qed


lemma get_prop_truthy: "truthy v \<Longrightarrow> \<exists>x. get_prop v k = Inr x"
  by (cases v) (simp_all split: option.splits)

lemma init_target_ok:
  "(\<exists>t. init_target P ls = Inr t)
     = (\<forall>raw. ls ''lastCoords'' = Some raw \<and> raw \<noteq> [] \<longrightarrow> (\<exists>v. JSON_parse P raw = Inr v))"
proof -
  have fields: "\<exists>t. (if truthy last
       then and_then (get_prop last ''place'') (\<lambda>pl.
              and_then (get_prop last ''lat'') (\<lambda>la.
                and_then (get_prop last ''lon'') (\<lambda>lo. Inr (pl, la, lo))))
       else Inr (JStr ''Mumbai, IN'', JNum (Fin 19.076), JNum (Fin 72.8777))) = Inr t" for last
  proof (cases "truthy last")
    case True
    obtain pl la lo where "get_prop last ''place'' = Inr pl" "get_prop last ''lat'' = Inr la"
      "get_prop last ''lon'' = Inr lo"
      using get_prop_truthy [OF True] by blast
    with True show ?thesis by simp
  next
    case False
    then show ?thesis by simp
  qed
  show ?thesis
  proof (cases "ls ''lastCoords''")
    case None
    then show ?thesis using fields [of JNull] by (simp add: init_target_def)
  next
    case (Some raw)
    show ?thesis
    proof (cases "raw = []")
      case True
      then show ?thesis using Some fields [of JNull] by (simp add: init_target_def)
    next
      case False
      show ?thesis
      proof (cases "JSON_parse P raw")
        case (Inl err)
        then show ?thesis using Some False by (simp add: init_target_def)
      next
        case (Inr last)
        then show ?thesis using Some False fields [of last] by (simp add: init_target_def)
      qed
    qed
  qed
qed

text \<open>
  C2, as amended. In every reachable state:

  \<^item> A task changes the \<^verbatim>\<open>lastCoords\<close> entry only through the observer: the observer is
    installed, the task gave some element of the page new children, both session
    coordinates are truthy at its end, and the entry becomes the JSON text of the
    session's coordinates and place name as they are then.

  \<^item> The observer, once installed, stays; it is installed by the script exactly when
    \<^verbatim>\<open>init\<close> did not stop on a \<^verbatim>\<open>lastCoords\<close> entry that is not JSON.

  \<^item> The session's coordinates and place name are those of the load started last: a
    position from the geolocation service and a click on a suggestion set them, a unit
    toggle (which reloads the same location), a search and a response leave them.

  \<^item> A load writes the skeleton when it starts. So, with the observer installed, a
    position, a click on a suggestion or a unit toggle with truthy coordinates writes the
    entry in that same task, before any response to its forecast request.

  \<^item> Hence, with the observer installed and truthy session coordinates, as soon as the
    observer has seen one change the entry is the JSON text of the coordinates and place
    name of the load started last, whether or not that load succeeded or completed.

  \<^item> The first load is started before the observer exists: the script leaves the entry
    as it found it, unless the observer has seen a change by the end of the script (a
    forecast that came from the cache and was drawn).

  \<^item> A page load whose \<^verbatim>\<open>lastCoords\<close> entry reads back as such a record restores its
    coordinates and place name.
\<close>

theorem lastCoords_written_when_load_starts:
  assumes "reachable P s"
  shows "(localStorage (step P now e s) ''lastCoords'' \<noteq> localStorage s ''lastCoords'' \<longrightarrow>
            observing s \<and>
            list_ex changes_children (drop (length (page s)) (page (step P now e s))) \<and>
            truthy (lat (step P now e s)) \<and> truthy (lon (step P now e s)) \<and>
            localStorage (step P now e s) ''lastCoords''
              = Some (JSON_stringify P (lastCoords_record (step P now e s)))) \<and>
         observing (step P now e s) = observing s \<and>
         observing (startup P now' ls)
           = (\<forall>raw. ls ''lastCoords'' = Some raw \<and> raw \<noteq> [] \<longrightarrow> (\<exists>v. JSON_parse P raw = Inr v)) \<and>
         lastCoords_record (step P now (Position la lo) s)
           = JObj [(''lat'', JNum la), (''lon'', JNum lo), (''place'', JStr ''Your location'')] \<and>
         lastCoords_record (step P now (SuggestClick las los name) s)
           = JObj [(''lat'', JNum (parseFloat P las)), (''lon'', JNum (parseFloat P los)),
                   (''place'', JStr name)] \<and>
         lastCoords_record (step P now (UnitToggle checked) s) = lastCoords_record s \<and>
         lastCoords_record (step P now (Search q) s) = lastCoords_record s \<and>
         lastCoords_record (step P now (Response i outcome) s) = lastCoords_record s \<and>
         (observing s \<and> truthy (JNum la) \<and> truthy (JNum lo) \<longrightarrow>
            localStorage (step P now (Position la lo) s) ''lastCoords''
              = Some (JSON_stringify P
                  (JObj [(''lat'', JNum la), (''lon'', JNum lo), (''place'', JStr ''Your location'')]))) \<and>
         (observing s \<and> truthy (JNum (parseFloat P las)) \<and> truthy (JNum (parseFloat P los)) \<longrightarrow>
            localStorage (step P now (SuggestClick las los name) s) ''lastCoords''
              = Some (JSON_stringify P
                  (JObj [(''lat'', JNum (parseFloat P las)), (''lon'', JNum (parseFloat P los)),
                         (''place'', JStr name)]))) \<and>
         (observing s \<and> truthy (lat s) \<and> truthy (lon s) \<longrightarrow>
            localStorage (step P now (UnitToggle checked) s) ''lastCoords''
              = Some (JSON_stringify P (lastCoords_record s))) \<and>
         (observing s \<and> truthy (lat s) \<and> truthy (lon s) \<and> seen_change s \<longrightarrow>
            localStorage s ''lastCoords'' = Some (JSON_stringify P (lastCoords_record s))) \<and>
         (\<not> seen_change (startup P now' ls) \<longrightarrow>
            localStorage (startup P now' ls) ''lastCoords'' = ls ''lastCoords'') \<and>
         (ls ''lastCoords'' = Some raw \<and> raw \<noteq> [] \<and> JSON_parse P raw = Inr (lastCoords_record s) \<longrightarrow>
            lat (startup P now' ls) = lat s \<and> lon (startup P now' ls) = lon s \<and>
            place (startup P now' ls) = place s)"
proof -
  have c1: "localStorage (step P now e s) ''lastCoords'' \<noteq> localStorage s ''lastCoords'' \<longrightarrow>
            observing s \<and>
            list_ex changes_children (drop (length (page s)) (page (step P now e s))) \<and>
            truthy (lat (step P now e s)) \<and> truthy (lon (step P now e s)) \<and>
            localStorage (step P now e s) ''lastCoords''
              = Some (JSON_stringify P (lastCoords_record (step P now e s)))"
    using step_lastCoords_changed [of P now e s] by blast
  have c2: "observing (step P now e s) = observing s" by (rule step_observing)
  have c3: "observing (startup P now' ls)
           = (\<forall>raw. ls ''lastCoords'' = Some raw \<and> raw \<noteq> [] \<longrightarrow> (\<exists>v. JSON_parse P raw = Inr v))"
    by (simp only: startup_observing init_target_ok)
  have c4: "observing s \<and> truthy (JNum la) \<and> truthy (JNum lo) \<longrightarrow>
            localStorage (step P now (Position la lo) s) ''lastCoords''
              = Some (JSON_stringify P
                  (JObj [(''lat'', JNum la), (''lon'', JNum lo), (''place'', JStr ''Your location'')]))"
  proof
    assume a: "observing s \<and> truthy (JNum la) \<and> truthy (JNum lo)"
    have "handle P now (Position la lo) s
            = loadWeather P now (JNum la) (JNum lo) (s\<lparr>place := JStr ''Your location''\<rparr>)"
      by (simp add: handle_def position_found_def)
    from step_load_persists [OF _ this] a
    show "localStorage (step P now (Position la lo) s) ''lastCoords''
          = Some (JSON_stringify P
              (JObj [(''lat'', JNum la), (''lon'', JNum lo), (''place'', JStr ''Your location'')]))"
      by simp
  qed
  have c5: "observing s \<and> truthy (JNum (parseFloat P las)) \<and> truthy (JNum (parseFloat P los)) \<longrightarrow>
            localStorage (step P now (SuggestClick las los name) s) ''lastCoords''
              = Some (JSON_stringify P
                  (JObj [(''lat'', JNum (parseFloat P las)), (''lon'', JNum (parseFloat P los)),
                         (''place'', JStr name)]))"
  proof
    assume a: "observing s \<and> truthy (JNum (parseFloat P las)) \<and> truthy (JNum (parseFloat P los))"
    have "handle P now (SuggestClick las los name) s
          = loadWeather P now (JNum (parseFloat P las)) (JNum (parseFloat P los))
              (s\<lparr>place := JStr name, page := page s @ [SuggestDisplay False, QueryValue name]\<rparr>)"
      by (simp add: handle_def suggest_click_def)
    from step_load_persists [OF _ this] a
    show "localStorage (step P now (SuggestClick las los name) s) ''lastCoords''
          = Some (JSON_stringify P
              (JObj [(''lat'', JNum (parseFloat P las)), (''lon'', JNum (parseFloat P los)),
                     (''place'', JStr name)]))"
      by simp
  qed
  have c6: "observing s \<and> truthy (lat s) \<and> truthy (lon s) \<longrightarrow>
            localStorage (step P now (UnitToggle checked) s) ''lastCoords''
              = Some (JSON_stringify P (lastCoords_record s))"
    using step_toggle_persists [of s P now checked] by blast
  have c7: "observing s \<and> truthy (lat s) \<and> truthy (lon s) \<and> seen_change s \<longrightarrow>
            localStorage s ''lastCoords'' = Some (JSON_stringify P (lastCoords_record s))"
    using lastCoords_invariant [OF assms] by blast
  have c8: "\<not> seen_change (startup P now' ls) \<longrightarrow>
            localStorage (startup P now' ls) ''lastCoords'' = ls ''lastCoords''"
    using startup_quiet [of P now' ls] by blast
  have c9: "ls ''lastCoords'' = Some raw \<and> raw \<noteq> [] \<and> JSON_parse P raw = Inr (lastCoords_record s) \<longrightarrow>
            lat (startup P now' ls) = lat s \<and> lon (startup P now' ls) = lon s \<and>
            place (startup P now' ls) = place s"
    using startup_restores [of ls raw P s now'] by blast
  show ?thesis
    by (intro conjI) (rule c1 c2 c3 step_target c4 c5 c6 c7 c8 c9)+
qed


lemma loadWeather_start_miss:
  assumes "forecast_key P la lo (units s) = Inr key" and "forecast_url P la lo (units s) = Inr url"
    and "mem s key = None" and "localStorage s key = None"
  shows "loadWeather_start P now la lo s =
           (None, s\<lparr>lat := la, lon := lo, page := page s @ [Skeleton],
                     pending := pending s @ [PForecast la lo (units s)]\<rparr>)"
proof -
  let ?s1 = "s\<lparr>lat := la, lon := lo, page := page s @ [Skeleton]\<rparr>"
  have "cacheGet P now key ?s1 = Inr (JNull, ?s1)"
    using assms(3,4) by (simp add: cacheGet_def)
  then have "forecast_start P now la lo (units ?s1) ?s1 = Inr (Fetch url, ?s1)"
    using assms(1,2) by (simp add: forecast_start_def getJSON_start_def)
  then show ?thesis by (simp add: loadWeather_start_def Let_def)
qed

lemma resume_rejected: "resume P now p Rejected s = s"
  by (cases p) (simp_all add: resume_def forecast_resume_def getJSON_resume_def geocode_resume_def
                  split: sum.splits)

lemma step_rejected:
  assumes "i < length (pending s)"
  shows "step P now (Response i Rejected) s = s\<lparr>pending := take i (pending s) @ drop (Suc i) (pending s)\<rparr>"
  using assms by (simp add: step_def handle_def resume_rejected deliver_def)

lemma toFixed2_more:
  "toFixed2 P (JNum (Fin 12.97)) = Inr ''12.97''"
  "toFixed2 P (JNum (Fin 77.59)) = Inr ''77.59''"
  by (simp_all add: hundredths_def fixed2_def decimal_digit decimal_more digit_char_numeral)

lemma forecast_key_home:
  "forecast_key P (JNum (Fin 12.97)) (JNum (Fin 77.59)) ''metric'' = Inr ''meteo:12.97,77.59:metric''"
  by (simp only: forecast_key_def toFixed2_more sum.case) simp

lemma startup_example: "startup example_platform 0 Map.empty = mumbai_loading"
proof -
  have t: "init_target example_platform Map.empty
             = Inr (JStr ''Mumbai, IN'', JNum (Fin 19.076), JNum (Fin 72.8777))"
    by (simp add: init_target_def)
  let ?s0 = "(initial Map.empty)\<lparr>place := JStr ''Mumbai, IN''\<rparr>"
  have u: "units ?s0 = ''metric''" by (simp add: initial_def or_default_def)
  have l: "loadWeather_start example_platform 0 (JNum (Fin 19.076)) (JNum (Fin 72.8777)) ?s0
             = (None, ?s0\<lparr>lat := JNum (Fin 19.076), lon := JNum (Fin 72.8777), page := page ?s0 @ [Skeleton],
                     pending := pending ?s0 @ [PForecast (JNum (Fin 19.076)) (JNum (Fin 72.8777)) (units ?s0)]\<rparr>)"
    by (rule loadWeather_start_miss [where key = "''meteo:19.08,72.88:metric''"])
       (simp_all only: u forecast_key_example forecast_url_numbers, simp_all add: initial_def)
  show ?thesis
    by (simp only: startup_def t sum.case prod.case l)
       (simp add: Let_def deliver_def initial_def or_default_def mumbai_loading_def)
qed

lemma stringify_home: "JSON_stringify example_platform home_record = home_json"
  by (simp add: example_platform_def home_record_def envelope_def)

lemma step_position_example:
  "step example_platform 2000 (Position (Fin 12.97) (Fin 77.59)) mumbai_loading = home_loading"
proof -
  let ?s0 = "mumbai_loading\<lparr>place := JStr ''Your location''\<rparr>"
  have u: "units ?s0 = ''metric''" by (simp add: mumbai_loading_def)
  have l: "loadWeather_start example_platform 2000 (JNum (Fin 12.97)) (JNum (Fin 77.59)) ?s0
             = (None, ?s0\<lparr>lat := JNum (Fin 12.97), lon := JNum (Fin 77.59), page := page ?s0 @ [Skeleton],
                     pending := pending ?s0 @ [PForecast (JNum (Fin 12.97)) (JNum (Fin 77.59)) (units ?s0)]\<rparr>)"
    by (rule loadWeather_start_miss [where key = "''meteo:12.97,77.59:metric''"])
       (simp_all only: u forecast_key_home forecast_url_numbers, simp_all add: mumbai_loading_def)
  have h: "handle example_platform 2000 (Position (Fin 12.97) (Fin 77.59)) mumbai_loading
             = ?s0\<lparr>lat := JNum (Fin 12.97), lon := JNum (Fin 77.59), page := page ?s0 @ [Skeleton],
                     pending := pending ?s0 @ [PForecast (JNum (Fin 12.97)) (JNum (Fin 77.59)) (units ?s0)]\<rparr>"
    by (simp only: handle_def event.case position_found_def loadWeather_def l prod.case option.case)
  have r: "lastCoords_record (?s0\<lparr>lat := JNum (Fin 12.97), lon := JNum (Fin 77.59), page := page ?s0 @ [Skeleton],
                     pending := pending ?s0 @ [PForecast (JNum (Fin 12.97)) (JNum (Fin 77.59)) (units ?s0)]\<rparr>) = home_record"
    by (simp add: lastCoords_record_def home_record_def)
  show ?thesis
    unfolding step_def h deliver_def observer_callback_def r stringify_home
    by (simp add: mumbai_loading_def home_loading_def)
qed

lemma offline_visit_eq: "offline_visit = home_loading\<lparr>pending := []\<rparr>"
proof -
  have a: "step example_platform 3000 (Response 0 Rejected) home_loading
             = home_loading\<lparr>pending := [PForecast (JNum (Fin 12.97)) (JNum (Fin 77.59)) ''metric'']\<rparr>"
    by (subst step_rejected) (simp_all add: home_loading_def)
  have b: "step example_platform 4000 (Response 0 Rejected)
             (home_loading\<lparr>pending := [PForecast (JNum (Fin 12.97)) (JNum (Fin 77.59)) ''metric'']\<rparr>)
             = home_loading\<lparr>pending := []\<rparr>"
    by (subst step_rejected) (simp_all add: home_loading_def)
  show ?thesis
    by (simp only: offline_visit_def run.simps startup_example step_position_example a b)
qed

lemma parse_home: "JSON_parse example_platform home_json = Inr home_record"
  by (simp add: example_platform_def home_json_def entry_json_def valueless_json_def)

theorem lastCoords_written_when_load_starts_witness:
  "reachable example_platform mumbai_loading \<and>
   localStorage (step example_platform 2000 (Position (Fin 12.97) (Fin 77.59)) mumbai_loading) ''lastCoords''
     \<noteq> localStorage mumbai_loading ''lastCoords'' \<and>
   observing mumbai_loading \<and> truthy (JNum (Fin 12.97)) \<and> truthy (JNum (Fin 77.59)) \<and>
   truthy (JNum (parseFloat example_platform ''51.51'')) \<and>
   truthy (JNum (parseFloat example_platform ''-0.13'')) \<and>
   step example_platform 2000 (Position (Fin 12.97) (Fin 77.59)) mumbai_loading = home_loading \<and>
   pending home_loading = [PForecast (JNum (Fin 19.076)) (JNum (Fin 72.8777)) ''metric'',
                           PForecast (JNum (Fin 12.97)) (JNum (Fin 77.59)) ''metric''] \<and>
   localStorage home_loading ''lastCoords'' = Some (JSON_stringify example_platform home_record) \<and>
   localStorage (step example_platform 2000 (SuggestClick ''51.51'' ''-0.13'' ''London'') mumbai_loading)
       ''lastCoords''
     = Some (JSON_stringify example_platform
         (JObj [(''lat'', JNum (Fin 51.51)), (''lon'', JNum (Fin (- 0.13))), (''place'', JStr ''London'')])) \<and>
   truthy (lat mumbai_loading) \<and> truthy (lon mumbai_loading) \<and>
   localStorage (step example_platform 2000 (UnitToggle True) mumbai_loading) ''lastCoords''
     = Some (JSON_stringify example_platform (lastCoords_record mumbai_loading)) \<and>
   reachable example_platform home_loading \<and> observing home_loading \<and>
   truthy (lat home_loading) \<and> truthy (lon home_loading) \<and> seen_change home_loading \<and>
   localStorage home_loading ''lastCoords''
     = Some (JSON_stringify example_platform (lastCoords_record home_loading)) \<and>
   \<not> seen_change (startup example_platform 0 Map.empty) \<and>
   localStorage (startup example_platform 0 Map.empty) ''lastCoords'' = None \<and>
   localStorage home_loading ''lastCoords'' = Some home_json \<and> home_json \<noteq> [] \<and>
   JSON_parse example_platform home_json = Inr (lastCoords_record home_loading) \<and>
   observing (startup example_platform 5000 (localStorage home_loading)) \<and>
   lat (startup example_platform 5000 (localStorage home_loading)) = JNum (Fin 12.97) \<and>
   lon (startup example_platform 5000 (localStorage home_loading)) = JNum (Fin 77.59) \<and>
   place (startup example_platform 5000 (localStorage home_loading)) = JStr ''Your location''"
proof -
  have rh: "reachable example_platform home_loading"
    using reachable_step [OF reachable_startup [of example_platform 0 Map.empty],
            of 2000 "Position (Fin 12.97) (Fin 77.59)"]
    by (simp only: startup_example step_position_example)
  have rm: "reachable example_platform mumbai_loading"
    using reachable_startup [of example_platform 0 Map.empty] by (simp only: startup_example)
  have hl: "localStorage home_loading ''lastCoords'' = Some home_json" "home_json \<noteq> []"
    by (simp_all add: home_loading_def home_json_def)
  have pr: "JSON_parse example_platform home_json = Inr (lastCoords_record home_loading)"
    by (simp add: parse_home lastCoords_record_def home_loading_def home_record_def)
  have fields: "lat home_loading = JNum (Fin 12.97)" "lon home_loading = JNum (Fin 77.59)"
    "place home_loading = JStr ''Your location''"
    by (simp_all add: home_loading_def)
  have oh: "observing home_loading" by (simp add: home_loading_def)
  have th': "truthy (lat home_loading)" "truthy (lon home_loading)" by (simp_all add: home_loading_def)
  have sh: "seen_change home_loading" by (simp add: seen_change_def home_loading_def)
  note home = lastCoords_written_when_load_starts
         [OF rh, where ls = "localStorage home_loading" and raw = home_json and now' = 5000]
  from home hl pr fields
  have restored: "lat (startup example_platform 5000 (localStorage home_loading)) = JNum (Fin 12.97)"
    "lon (startup example_platform 5000 (localStorage home_loading)) = JNum (Fin 77.59)"
    "place (startup example_platform 5000 (localStorage home_loading)) = JStr ''Your location''"
    by simp_all
  from home oh th' sh
  have inv: "localStorage home_loading ''lastCoords''
     = Some (JSON_stringify example_platform (lastCoords_record home_loading))"
    by blast
  have "\<forall>raw. localStorage home_loading ''lastCoords'' = Some raw \<and> raw \<noteq> [] \<longrightarrow>
          (\<exists>v. JSON_parse example_platform raw = Inr v)"
    using hl pr by simp
  with home have obs: "observing (startup example_platform 5000 (localStorage home_loading))"
    by blast
  have pf: "parseFloat example_platform ''51.51'' = Fin 51.51"
    "parseFloat example_platform ''-0.13'' = Fin (- 0.13)"
    by (simp_all add: example_platform_def)
  note th = lastCoords_written_when_load_starts
      [OF rm, where now = 2000 and e = "Position (Fin 12.97) (Fin 77.59)"
         and la = "Fin 12.97" and lo = "Fin 77.59" and las = "''51.51''" and los = "''-0.13''"
         and name = "''London''" and checked = True and now' = 0 and ls = Map.empty]
  have o: "observing mumbai_loading" by (simp add: mumbai_loading_def)
  have tm: "truthy (lat mumbai_loading)" "truthy (lon mumbai_loading)"
    by (simp_all add: mumbai_loading_def)
  have t: "truthy (JNum (Fin 12.97))" "truthy (JNum (Fin 77.59))"
    "truthy (JNum (parseFloat example_platform ''51.51''))"
    "truthy (JNum (parseFloat example_platform ''-0.13''))"
    unfolding pf by simp_all
  have ne: "localStorage (step example_platform 2000 (Position (Fin 12.97) (Fin 77.59)) mumbai_loading) ''lastCoords''
     \<noteq> localStorage mumbai_loading ''lastCoords''"
    unfolding step_position_example by (simp add: home_loading_def mumbai_loading_def)
  have p: "pending home_loading = [PForecast (JNum (Fin 19.076)) (JNum (Fin 72.8777)) ''metric'',
                           PForecast (JNum (Fin 12.97)) (JNum (Fin 77.59)) ''metric'']"
    by (simp add: home_loading_def)
  have h: "localStorage home_loading ''lastCoords'' = Some (JSON_stringify example_platform home_record)"
    unfolding stringify_home by (simp add: home_loading_def)
  from th o t have click: "localStorage (step example_platform 2000 (SuggestClick ''51.51'' ''-0.13'' ''London'') mumbai_loading)
       ''lastCoords''
     = Some (JSON_stringify example_platform
         (JObj [(''lat'', JNum (Fin 51.51)), (''lon'', JNum (Fin (- 0.13))), (''place'', JStr ''London'')]))"
    unfolding pf by blast
  from th o tm have toggle: "localStorage (step example_platform 2000 (UnitToggle True) mumbai_loading) ''lastCoords''
     = Some (JSON_stringify example_platform (lastCoords_record mumbai_loading))"
    by blast
  have quiet: "\<not> seen_change (startup example_platform 0 Map.empty)"
    unfolding startup_example by (simp add: seen_change_def mumbai_loading_def)
  with th have kept: "localStorage (startup example_platform 0 Map.empty) ''lastCoords'' = None"
    by simp
  show ?thesis
    by (intro conjI)
       (rule rm ne o t step_position_example p h click tm toggle rh oh th' sh inv quiet kept hl pr obs
             restored)+
qed


lemma init_target_home:
  "init_target example_platform [''lastCoords'' \<mapsto> home_json]
     = Inr (JStr ''Your location'', JNum (Fin 12.97), JNum (Fin 77.59))"
proof -
  have "home_json \<noteq> []" by (simp add: home_json_def)
  then show ?thesis
    by (simp add: init_target_def parse_home) (simp add: home_record_def)
qed

text \<open>
  C2, as stated, fails. In the offline visit no forecast ever arrives: both requests are
  rejected and the page shows nothing but skeletons. Yet \<^verbatim>\<open>lastCoords\<close> holds the position
  whose load failed, and the next page load restores it.
\<close>

theorem lastCoords_of_failed_load:
  "page offline_visit = [UnitText (unit_label ''metric''), Skeleton, Skeleton] \<and>
   pending offline_visit = [] \<and>
   localStorage offline_visit = [''lastCoords'' \<mapsto> home_json] \<and>
   lat (startup example_platform 5000 (localStorage offline_visit)) = JNum (Fin 12.97) \<and>
   lon (startup example_platform 5000 (localStorage offline_visit)) = JNum (Fin 77.59) \<and>
   place (startup example_platform 5000 (localStorage offline_visit)) = JStr ''Your location''"
proof -
  have ls: "localStorage offline_visit = [''lastCoords'' \<mapsto> home_json]"
    by (simp add: offline_visit_eq home_loading_def)
  show ?thesis
    using startup_target [OF init_target_home, of 5000]
    unfolding ls by (simp add: offline_visit_eq home_loading_def)
qed

lemma step_page: "\<exists>ws. page (step P now e s) = page s @ ws"
  using handle_app [of P now e s] by (simp add: step_def deliver_session)

lemma run_page: "\<exists>ws. page (run P es s) = page s @ ws"
proof (induction es arbitrary: s)
  case Nil
  show ?case by simp
next
  case (Cons a es)
  obtain now e where a: "a = (now, e)" by (cases a)
  obtain ws1 where 1: "page (step P now e s) = page s @ ws1" using step_page by blast
  obtain ws2 where 2: "page (run P es (step P now e s)) = page (step P now e s) @ ws2"
    using Cons.IH by blast
  show ?case unfolding a run.simps 2 1 by simp
qed

lemma step_response_forecast:
  assumes "i < length (pending s)" and "pending s ! i = PForecast la lo u"
    and "forecast_key P la lo u = Inr key" and "truthy (place s)"
  shows "page (step P now (Response i (Json data)) s)
           = page s @ forecast_writes P (place s) data (units s) False"
proof -
  let ?s1 = "s\<lparr>pending := take i (pending s) @ drop (Suc i) (pending s)\<rparr>"
  let ?c = "cacheSet P now key data (1000 * 60 * 10) ?s1"
  have fr: "forecast_resume P now la lo u (Json data) ?s1 = Inr ((data, False), ?c)"
    using assms(3) by (simp add: forecast_resume_def getJSON_resume_def)
  have c: "place ?c = place s" "page ?c = page s" "units ?c = units s"
    by (simp_all add: cacheSet_def)
  have "handle P now (Response i (Json data)) s = loadWeather_render P la lo (data, False) ?c"
    using assms(1,2) by (simp add: handle_def resume_def fr)
  then show ?thesis
    using assms(4) c by (simp add: step_def deliver_session loadWeather_render_def place_or_coordinates_def)
qed

lemma forecast_key_fallback:
  "forecast_key P (JNum (Fin 19.076)) (JNum (Fin 72.8777)) u = Inr (''meteo:19.08,72.88:'' @ u)"
  by (simp only: forecast_key_def toFixed2_examples sum.case) simp

lemma startup_load:
  assumes t: "init_target P ls = Inr (pl, la, lo)" and pl: "truthy pl"
    and key: "forecast_key P la lo (or_default (ls ''units'') ''metric'') = Inr key"
    and url: "forecast_url P la lo (or_default (ls ''units'') ''metric'') = Inr url"
  shows "pending (startup P now ls) = [PForecast la lo (or_default (ls ''units'') ''metric'')] \<and>
         page (startup P now ls) = [UnitText (unit_label (or_default (ls ''units'') ''metric'')), Skeleton] \<and>
         (\<forall>now' data. page (step P now' (Response 0 (Json data)) (startup P now ls))
             = [UnitText (unit_label (or_default (ls ''units'') ''metric'')), Skeleton] @
               forecast_writes P pl data (or_default (ls ''units'') ''metric'') False)
         \<or> (\<exists>data. pending (startup P now ls) = [] \<and>
               page (startup P now ls)
                 = [UnitText (unit_label (or_default (ls ''units'') ''metric'')), Skeleton] @
                   forecast_writes P pl data (or_default (ls ''units'') ''metric'') True)"
proof -
  let ?u = "or_default (ls ''units'') ''metric''"
  note tg = startup_target [OF t, of now]
  let ?s0 = "(initial ls)\<lparr>place := pl\<rparr>"
  let ?s1 = "?s0\<lparr>lat := la, lon := lo, page := page ?s0 @ [Skeleton]\<rparr>"
  have us: "units ?s1 = ?u" by (simp add: initial_def)
  obtain v c where cg: "cacheGet P now key ?s1 = Inr (v, c)"
    using cacheGet_total by blast
  from cacheGet_app [OF cg] have same: "same_session ?s1 c" by simp
  have fs: "forecast_start P now la lo ?u ?s1 =
              (if truthy v then Inr (Done (v, True), c) else Inr (Fetch url, c))"
    by (simp only: forecast_start_def key url sum.case getJSON_start_def cg prod.case)
  have pg0: "page ?s1 = [UnitText (unit_label ?u), Skeleton]" by (simp add: initial_def)
  show ?thesis
  proof (cases "truthy v")
    case True
    have l: "loadWeather_start P now la lo ?s0 = (Some (v, True), c)"
      by (simp only: loadWeather_start_def Let_def us fs True if_True sum.case prod.case started.case)
    let ?s2 = "c\<lparr>observing := True\<rparr>"
    have su: "startup P now ls = deliver P (length (page ?s2)) (loadWeather_render P la lo (v, True) ?s2)"
      by (simp only: startup_def t sum.case prod.case l Let_def option.case)
    have "pending (startup P now ls) = []"
      unfolding su using same by (simp add: deliver_session loadWeather_render_def same_session_def initial_def)
    moreover have "page (startup P now ls) = [UnitText (unit_label ?u), Skeleton] @ forecast_writes P pl v ?u True"
      unfolding su using same pg0 pl
      by (simp add: deliver_session loadWeather_render_def place_or_coordinates_def same_session_def initial_def)
    ultimately show ?thesis by blast
  next
    case False
    have l: "loadWeather_start P now la lo ?s0 = (None, c\<lparr>pending := pending c @ [PForecast la lo ?u]\<rparr>)"
      by (simp only: loadWeather_start_def Let_def us fs False if_False sum.case prod.case started.case)
    let ?s2 = "c\<lparr>pending := pending c @ [PForecast la lo ?u], observing := True\<rparr>"
    have su: "startup P now ls = deliver P (length (page ?s2)) ?s2"
      by (simp only: startup_def t sum.case prod.case l Let_def option.case)
    have p: "pending (startup P now ls) = [PForecast la lo ?u]"
      unfolding su using same by (simp add: deliver_session same_session_def initial_def)
    have pg: "page (startup P now ls) = [UnitText (unit_label ?u), Skeleton]"
      unfolding su using same pg0 by (simp add: deliver_session same_session_def)
    have "page (step P now' (Response 0 (Json data)) (startup P now ls))
            = [UnitText (unit_label ?u), Skeleton] @ forecast_writes P pl data ?u False" for now' data
      using step_response_forecast [of 0 "startup P now ls" la lo ?u P key now' data]
            p pg tg key pl
      by simp
    with p pg show ?thesis by blast
  qed
qed

text \<open>
  C9. A page load with no \<^verbatim>\<open>lastCoords\<close> entry sets the session to the fallback location
  19.076, 72.8777 with the place name \<^verbatim>\<open>Mumbai, IN\<close> and loads its weather: the page is
  the unit label followed by the skeleton, and either the forecast request for these
  coordinates is in flight, and a response to it is rendered after the skeleton, or the
  forecast came from the cache and is rendered after the skeleton. Whatever happens
  later in the session, everything on the page comes after that skeleton.
\<close>

theorem cold_start_fallback:
  assumes "ls ''lastCoords'' = None"
  shows "lat (startup P now ls) = JNum (Fin 19.076) \<and> lon (startup P now ls) = JNum (Fin 72.8777) \<and>
         place (startup P now ls) = JStr ''Mumbai, IN'' \<and>
         (pending (startup P now ls)
            = [PForecast (JNum (Fin 19.076)) (JNum (Fin 72.8777)) (units (startup P now ls))] \<and>
          page (startup P now ls) = [UnitText (unit_label (units (startup P now ls))), Skeleton] \<and>
          (\<forall>now' data.
             page (step P now' (Response 0 (Json data)) (startup P now ls))
               = [UnitText (unit_label (units (startup P now ls))), Skeleton] @
                 forecast_writes P (JStr ''Mumbai, IN'') data (units (startup P now ls)) False)
          \<or>
          (\<exists>data. pending (startup P now ls) = [] \<and>
             page (startup P now ls)
               = [UnitText (unit_label (units (startup P now ls))), Skeleton] @
                 forecast_writes P (JStr ''Mumbai, IN'') data (units (startup P now ls)) True)) \<and>
         (\<forall>es. \<exists>ws. page (run P es (startup P now ls))
                       = [UnitText (unit_label (units (startup P now ls))), Skeleton] @ ws)"
proof -
  let ?u = "or_default (ls ''units'') ''metric''"
  have t: "init_target P ls = Inr (JStr ''Mumbai, IN'', JNum (Fin 19.076), JNum (Fin 72.8777))"
    using assms by (simp add: init_target_def)
  note tg = startup_target [OF t, of now]
  then have u: "units (startup P now ls) = ?u" by simp
  have pl: "truthy (JStr ''Mumbai, IN'')" by simp
  note middle = startup_load [OF t pl forecast_key_fallback forecast_url_numbers, of now]
  have prefix: "\<exists>ws. page (run P es (startup P now ls)) = [UnitText (unit_label ?u), Skeleton] @ ws" for es
  proof -
    obtain ws0 where "page (startup P now ls) = [UnitText (unit_label ?u), Skeleton] @ ws0"
      using tg by blast
    moreover obtain ws1 where "page (run P es (startup P now ls)) = page (startup P now ls) @ ws1"
      using run_page by blast
    ultimately show ?thesis by simp
  qed
  show ?thesis
    unfolding u using tg middle prefix by blast
qed

theorem cold_start_fallback_witness:
  "(Map.empty :: string \<rightharpoonup> string) ''lastCoords'' = None \<and>
   startup example_platform 0 Map.empty = mumbai_loading \<and>
   lat mumbai_loading = JNum (Fin 19.076) \<and> lon mumbai_loading = JNum (Fin 72.8777) \<and>
   place mumbai_loading = JStr ''Mumbai, IN'' \<and>
   page mumbai_loading = [UnitText (unit_label ''metric''), Skeleton] \<and>
   pending mumbai_loading = [PForecast (JNum (Fin 19.076)) (JNum (Fin 72.8777)) ''metric''] \<and>
   page (step example_platform 900 (Response 0 (Json JNull)) mumbai_loading)
     = [UnitText (unit_label ''metric''), Skeleton, PlaceText ''Mumbai, IN'']"
proof -
  have e: "(Map.empty :: string \<rightharpoonup> string) ''lastCoords'' = None" by simp
  note th = cold_start_fallback [OF e, of example_platform 0, unfolded startup_example]
  have f: "lat mumbai_loading = JNum (Fin 19.076)" "lon mumbai_loading = JNum (Fin 72.8777)"
    "place mumbai_loading = JStr ''Mumbai, IN''" "units mumbai_loading = ''metric''"
    "page mumbai_loading = [UnitText (unit_label ''metric''), Skeleton]"
    "pending mumbai_loading = [PForecast (JNum (Fin 19.076)) (JNum (Fin 72.8777)) ''metric'']"
    by (simp_all add: mumbai_loading_def)
  have w: "forecast_writes example_platform (JStr ''Mumbai, IN'') JNull ''metric'' False = [PlaceText ''Mumbai, IN'']"
    by (simp add: forecast_writes_def renderCurrent_def current_weather_def)
  from th f have "page (step example_platform 900 (Response 0 (Json JNull)) mumbai_loading)
     = [UnitText (unit_label ''metric''), Skeleton] @
       forecast_writes example_platform (JStr ''Mumbai, IN'') JNull ''metric'' False"
    by auto
  then show ?thesis using f startup_example unfolding w by simp
qed

lemma step_toggle_no_coordinates:
  assumes "\<not> (truthy (lat s) \<and> truthy (lon s))"
  shows "step P now (UnitToggle checked) s =
           s\<lparr>localStorage := (localStorage s)(''units'' \<mapsto> (if checked then ''imperial'' else ''metric'')),
             units := (if checked then ''imperial'' else ''metric''),
             page := page s @ [UnitText (unit_label (if checked then ''imperial'' else ''metric''))]\<rparr>"
  using assms
  by (auto simp add: step_def handle_def setUnits_def Let_def deliver_def observer_callback_def)

text \<open>
  C10. In a state whose latitude or longitude is 0, a change of the unit toggle stores
  the new unit under \<^verbatim>\<open>units\<close>, updates the session and the unit label, and does nothing
  else: no request, no skeleton, no change of the cache or of \<^verbatim>\<open>lastCoords\<close>. And no task
  that ends with a latitude or longitude of 0 changes \<^verbatim>\<open>lastCoords\<close>: the observer's
  test \<^verbatim>\<open>state.lat&&state.lon\<close> takes the zero for a missing coordinate.
\<close>

theorem zero_coordinate_is_no_location:
  "(lat s = JNum (Fin 0) \<or> lon s = JNum (Fin 0) \<longrightarrow>
      step P now (UnitToggle checked) s =
        s\<lparr>localStorage := (localStorage s)(''units'' \<mapsto> (if checked then ''imperial'' else ''metric'')),
          units := (if checked then ''imperial'' else ''metric''),
          page := page s @ [UnitText (unit_label (if checked then ''imperial'' else ''metric''))]\<rparr> \<and>
      localStorage (step P now (UnitToggle checked) s) ''units''
        = Some (if checked then ''imperial'' else ''metric'') \<and>
      pending (step P now (UnitToggle checked) s) = pending s \<and>
      mem (step P now (UnitToggle checked) s) = mem s \<and>
      localStorage (step P now (UnitToggle checked) s) ''lastCoords'' = localStorage s ''lastCoords'') \<and>
   (lat (step P now e s) = JNum (Fin 0) \<or> lon (step P now e s) = JNum (Fin 0) \<longrightarrow>
      localStorage (step P now e s) ''lastCoords'' = localStorage s ''lastCoords'')"
proof (intro conjI impI)
  assume z: "lat s = JNum (Fin 0) \<or> lon s = JNum (Fin 0)"
  then have g: "\<not> (truthy (lat s) \<and> truthy (lon s))" by auto
  note eq = step_toggle_no_coordinates [OF g, of P now checked]
  show "step P now (UnitToggle checked) s =
        s\<lparr>localStorage := (localStorage s)(''units'' \<mapsto> (if checked then ''imperial'' else ''metric'')),
          units := (if checked then ''imperial'' else ''metric''),
          page := page s @ [UnitText (unit_label (if checked then ''imperial'' else ''metric''))]\<rparr>"
    by (rule eq)
  show "localStorage (step P now (UnitToggle checked) s) ''units''
        = Some (if checked then ''imperial'' else ''metric'')"
    by (subst eq) simp
  show "pending (step P now (UnitToggle checked) s) = pending s" by (subst eq) simp
  show "mem (step P now (UnitToggle checked) s) = mem s" by (subst eq) simp
  show "localStorage (step P now (UnitToggle checked) s) ''lastCoords'' = localStorage s ''lastCoords''"
    by (subst eq) simp
next
  assume z: "lat (step P now e s) = JNum (Fin 0) \<or> lon (step P now e s) = JNum (Fin 0)"
  show "localStorage (step P now e s) ''lastCoords'' = localStorage s ''lastCoords''"
  proof (rule ccontr)
    assume "localStorage (step P now e s) ''lastCoords'' \<noteq> localStorage s ''lastCoords''"
    from step_lastCoords_changed [OF this]
    have "truthy (lat (step P now e s))" "truthy (lon (step P now e s))" by simp_all
    with z show False by auto
  qed
qed

theorem zero_coordinate_is_no_location_witness:
  "lat (step example_platform 2000 (Position (Fin 0) (Fin 10)) mumbai_loading) = JNum (Fin 0) \<and>
   observing (step example_platform 2000 (Position (Fin 0) (Fin 10)) mumbai_loading) \<and>
   localStorage (step example_platform 2000 (Position (Fin 0) (Fin 10)) mumbai_loading) ''lastCoords''
     = localStorage mumbai_loading ''lastCoords'' \<and>
   localStorage (step example_platform 3000 (UnitToggle True)
                  (step example_platform 2000 (Position (Fin 0) (Fin 10)) mumbai_loading)) ''units''
     = Some ''imperial'' \<and>
   pending (step example_platform 3000 (UnitToggle True)
                  (step example_platform 2000 (Position (Fin 0) (Fin 10)) mumbai_loading))
     = pending (step example_platform 2000 (Position (Fin 0) (Fin 10)) mumbai_loading) \<and>
   localStorage (step example_platform 3000 (UnitToggle True)
                  (step example_platform 2000 (Position (Fin 0) (Fin 10)) mumbai_loading)) ''lastCoords''
     = None"
proof -
  let ?s = "step example_platform 2000 (Position (Fin 0) (Fin 10)) mumbai_loading"
  let ?t = "mumbai_loading\<lparr>place := JStr ''Your location''\<rparr>"
  have h: "handle example_platform 2000 (Position (Fin 0) (Fin 10)) mumbai_loading
             = loadWeather example_platform 2000 (JNum (Fin 0)) (JNum (Fin 10)) ?t"
    by (simp add: handle_def position_found_def)
  note a = loadWeather_app [of example_platform 2000 "JNum (Fin 0)" "JNum (Fin 10)" ?t]
  have st: "?s = deliver example_platform (length (page mumbai_loading))
                  (loadWeather example_platform 2000 (JNum (Fin 0)) (JNum (Fin 10)) ?t)"
    by (simp only: step_def h)
  have z: "lat ?s = JNum (Fin 0)"
    by (simp only: st deliver_session a)
  have "observing ?t" by (simp add: mumbai_loading_def)
  then have o: "observing ?s"
    by (simp only: st deliver_session a)
  have n: "localStorage mumbai_loading ''lastCoords'' = None" by (simp add: mumbai_loading_def)
  from zero_coordinate_is_no_location [of mumbai_loading example_platform 2000 True
         "Position (Fin 0) (Fin 10)"] z
  have keep: "localStorage ?s ''lastCoords'' = localStorage mumbai_loading ''lastCoords''" by blast
  from zero_coordinate_is_no_location [of ?s example_platform 3000 True "UnitToggle True"] z
  have "localStorage (step example_platform 3000 (UnitToggle True) ?s) ''units'' = Some ''imperial''"
    and "pending (step example_platform 3000 (UnitToggle True) ?s) = pending ?s"
    and "localStorage (step example_platform 3000 (UnitToggle True) ?s) ''lastCoords''
           = localStorage ?s ''lastCoords''"
    by simp_all
  with z o keep n show ?thesis by simp
qed

end
